theory Spec2Isabelle
  imports Complex_Main
begin

section \<open>Numbers, errors and the functions of Python's math module\<close>

text \<open>
  The module \<^verbatim>\<open>starfix_simple.py\<close> computes with Python floats. Its functions are
  embedded over the real numbers: every operation is exact, there is no rounding, no
  infinity and no NaN. Rounding decides the outcome of the program in two places, and
  for these the doubles themselves are modelled, in the section on double arithmetic:
  the float remainder \<^verbatim>\<open>%\<close> of \<^verbatim>\<open>calculate_gha\<close>, which returns the modulus itself for
  a tiny negative operand, and the square root of \<^verbatim>\<open>spherical_distance\<close>, whose
  argument \<open>1 - a\<close> is negative once the haversine term rounds above \<open>1\<close>. The lemmas
  that say that \<^verbatim>\<open>spherical_distance\<close> returns, and those on the fixes with an
  estimated position, hold in exact arithmetic.

  Exceptions are values. A \<^verbatim>\<open>ValueError\<close> carries what its message says; the two
  messages that print the offending number carry that number.
\<close>

datatype value_error =
    ZeroVector                \<comment> \<open>Zero vector cannot be converted to LatLon\<close>
  | BadDeclination real       \<comment> \<open>Declination must be between -90 and +90, got ...\<close>
  | BadAltitude real          \<comment> \<open>Altitude must be between 0 and 90 degrees, got ...\<close>
  | InvalidIsoformat          \<comment> \<open>raised by datetime.fromisoformat\<close>
  | TooFewSights              \<comment> \<open>SightCollection requires at least 2 sights\<close>
  | NoIntersection            \<comment> \<open>No intersection found - circles don't meet\<close>
  | NoValidIntersections      \<comment> \<open>No valid intersections found\<close>
  | MathDomain                \<comment> \<open>math domain error, raised by math.sqrt\<close>

datatype error = ValueError value_error | ZeroDivisionError | IndexError

definition EARTH_RADIUS_KM :: real where
  "EARTH_RADIUS_KM = 6371"

definition radians :: "real \<Rightarrow> real" where
  "radians x = x * pi / 180"

definition degrees :: "real \<Rightarrow> real" where
  "degrees x = x * 180 / pi"

text \<open>
  \<^verbatim>\<open>math.atan2(y, x)\<close>: the angle of the point \<open>(x, y)\<close> in \<open>(-pi, pi]\<close>, and \<open>0\<close> at
  the origin.
\<close>

definition atan2 :: "real \<Rightarrow> real \<Rightarrow> real" where
  "atan2 y x =
     (if 0 < x then arctan (y / x)
      else if x < 0 then (if 0 \<le> y then arctan (y / x) + pi else arctan (y / x) - pi)
      else if 0 < y then pi / 2
      else if y < 0 then - (pi / 2)
      else 0)"

text \<open>\<^verbatim>\<open>math.sqrt\<close> raises on a negative argument.\<close>

definition py_sqrt :: "real \<Rightarrow> error + real" where
  "py_sqrt x = (if x < 0 then Inl (ValueError MathDomain) else Inr (sqrt x))"

text \<open>Float division raises on a zero divisor.\<close>

definition py_div :: "real \<Rightarrow> real \<Rightarrow> error + real" where
  "py_div x y = (if y = 0 then Inl ZeroDivisionError else Inr (x / y))"

text \<open>\<^verbatim>\<open>x % m\<close> on floats with a positive modulus: the result has the sign of \<open>m\<close>.\<close>

definition py_mod :: "real \<Rightarrow> real \<Rightarrow> real" where
  "py_mod x m = x - m * of_int \<lfloor>x / m\<rfloor>"

text \<open>The idiom \<^verbatim>\<open>max(-1, min(1, x))\<close>.\<close>

definition clamp1 :: "real \<Rightarrow> real" where
  "clamp1 x = max (- 1) (min 1 x)"

section \<open>LatLon and the vector functions\<close>

record LatLon =
  lat :: real
  lon :: real

text \<open>\<^verbatim>\<open>LatLon.__init__\<close> stores its two arguments and checks nothing.\<close>

definition LatLon_init :: "real \<Rightarrow> real \<Rightarrow> LatLon" where
  "LatLon_init la lo = \<lparr>lat = la, lon = lo\<rparr>"

definition get_lat :: "LatLon \<Rightarrow> real" where
  "get_lat p = lat p"

definition get_lon :: "LatLon \<Rightarrow> real" where
  "get_lon p = lon p"

text \<open>
  The vectors of the module are lists of three floats; they are embedded as triples.
\<close>

type_synonym vec3 = "real \<times> real \<times> real"

definition to_rectangular :: "LatLon \<Rightarrow> vec3" where
  "to_rectangular latlon =
     (let lat_rad = radians (get_lat latlon);
          lon_rad = radians (get_lon latlon);
          x = cos lat_rad * cos lon_rad;
          y = cos lat_rad * sin lon_rad;
          z = sin lat_rad
      in (x, y, z))"

text \<open>
  In \<^verbatim>\<open>to_latlon\<close> and \<^verbatim>\<open>normalize_vect\<close> the argument of \<^verbatim>\<open>sqrt\<close> is a sum of
  squares, so \<^verbatim>\<open>sqrt\<close> cannot raise there.
\<close>

definition to_latlon :: "vec3 \<Rightarrow> error + LatLon" where
  "to_latlon vec =
     (case vec of (x, y, z) \<Rightarrow>
        let magnitude = sqrt (x\<^sup>2 + y\<^sup>2 + z\<^sup>2)
        in if magnitude = 0 then Inl (ValueError ZeroVector)
           else
             let x' = x / magnitude; y' = y / magnitude; z' = z / magnitude;
                 la = degrees (atan2 z' (sqrt (x'\<^sup>2 + y'\<^sup>2)));
                 lo = degrees (atan2 y' x')
             in Inr (LatLon_init la lo))"

definition normalize_vect :: "vec3 \<Rightarrow> vec3" where
  "normalize_vect vec =
     (case vec of (x, y, z) \<Rightarrow>
        let magnitude = sqrt (x\<^sup>2 + y\<^sup>2 + z\<^sup>2)
        in if magnitude = 0 then vec
           else (x / magnitude, y / magnitude, z / magnitude))"

definition add_vecs :: "vec3 \<Rightarrow> vec3 \<Rightarrow> vec3" where
  "add_vecs vec1 vec2 =
     (case vec1 of (x1, y1, z1) \<Rightarrow> case vec2 of (x2, y2, z2) \<Rightarrow> (x1 + x2, y1 + y2, z1 + z2))"

definition mult_scalar_vect :: "real \<Rightarrow> vec3 \<Rightarrow> vec3" where
  "mult_scalar_vect scalar vec = (case vec of (x, y, z) \<Rightarrow> (scalar * x, scalar * y, scalar * z))"

text \<open>
  \<^verbatim>\<open>spherical_distance\<close>: the haversine formula. Both square roots are taken of a
  computed quantity, so the domain error of \<^verbatim>\<open>sqrt\<close> is a branch of the model. The
  term under the roots is \<open>haversine_a\<close>, the variable \<open>a\<close> of the source.
\<close>

definition haversine_a :: "LatLon \<Rightarrow> LatLon \<Rightarrow> real" where
  "haversine_a latlon1 latlon2 =
     (let lat1 = radians (get_lat latlon1);
          lon1 = radians (get_lon latlon1);
          lat2 = radians (get_lat latlon2);
          lon2 = radians (get_lon latlon2);
          dlat = lat2 - lat1;
          dlon = lon2 - lon1
      in (sin (dlat / 2))\<^sup>2 + cos lat1 * cos lat2 * (sin (dlon / 2))\<^sup>2)"

definition spherical_distance :: "LatLon \<Rightarrow> LatLon \<Rightarrow> error + real" where
  "spherical_distance latlon1 latlon2 =
     (let a = haversine_a latlon1 latlon2
      in case py_sqrt a of
           Inl e \<Rightarrow> Inl e
         | Inr sa \<Rightarrow>
             (case py_sqrt (1 - a) of
                Inl e \<Rightarrow> Inl e
              | Inr sb \<Rightarrow> Inr (EARTH_RADIUS_KM * (2 * atan2 sa sb))))"

section \<open>Atmospheric corrections\<close>

text \<open>
  \<^verbatim>\<open>atmospheric_refraction\<close>. Past the guard the altitude is positive, so \<open>h + 4.4\<close> is
  not zero; the divisions by \<open>tan\<close> of the corrected angle and by the temperature in
  kelvin are the two that can raise.
\<close>

definition atmospheric_refraction :: "real \<Rightarrow> real \<Rightarrow> real \<Rightarrow> error + real" where
  "atmospheric_refraction altitude_deg temperature_c pressure_kpa =
     (if altitude_deg \<le> 0 \<or> altitude_deg \<ge> 90 then Inr 0
      else
        let h = altitude_deg
        in case py_div 1 (tan (radians (h + 7.31 / (h + 4.4)))) of
             Inl e \<Rightarrow> Inl e
           | Inr R \<Rightarrow>
               let temp_kelvin = temperature_c + 273.15
               in (case py_div 283 temp_kelvin of
                     Inl e \<Rightarrow> Inl e
                   | Inr q \<Rightarrow> Inr (R * (pressure_kpa / 101) * q / 60)))"

definition horizon_dip :: "real \<Rightarrow> real" where
  "horizon_dip observer_height_m =
     (if observer_height_m \<le> 0 then 0
      else let dip_arcmin = 1.76 * sqrt observer_height_m in dip_arcmin / 60)"

section \<open>Observation time and the Greenwich hour angle\<close>

text \<open>
  A \<^verbatim>\<open>datetime\<close> without time zone, as \<^verbatim>\<open>datetime(2000, 1, 1, 12, 0, 0)\<close> and the
  values \<^verbatim>\<open>datetime.fromisoformat\<close> returns for a string without offset. The difference
  of two of them is computed as the standard library does: by proleptic Gregorian
  ordinals, seconds of the day and microseconds. Time strings that carry a UTC offset
  are outside the model.
\<close>

record datetime =
  year :: int
  month :: int
  day :: int
  hour :: int
  minute :: int
  second :: int
  microsecond :: int

definition is_leap :: "int \<Rightarrow> bool" where
  "is_leap y = (y mod 4 = 0 \<and> (y mod 100 \<noteq> 0 \<or> y mod 400 = 0))"

definition days_before_year :: "int \<Rightarrow> int" where
  "days_before_year yr = (let y = yr - 1 in y * 365 + y div 4 - y div 100 + y div 400)"

definition days_before_month :: "int \<Rightarrow> int \<Rightarrow> int" where
  "days_before_month yr m =
     (if m = 1 then 0 else if m = 2 then 31 else if m = 3 then 59 else if m = 4 then 90
      else if m = 5 then 120 else if m = 6 then 151 else if m = 7 then 181
      else if m = 8 then 212 else if m = 9 then 243 else if m = 10 then 273
      else if m = 11 then 304 else 334)
     + (if m > 2 \<and> is_leap yr then 1 else 0)"

definition toordinal :: "datetime \<Rightarrow> int" where
  "toordinal t = days_before_year (year t) + days_before_month (year t) (month t) + day t"

text \<open>\<^verbatim>\<open>(t1 - t2).total_seconds()\<close>.\<close>

definition total_seconds_between :: "datetime \<Rightarrow> datetime \<Rightarrow> real" where
  "total_seconds_between t1 t2 =
     (let days = toordinal t1 - toordinal t2;
          secs1 = second t1 + minute t1 * 60 + hour t1 * 3600;
          secs2 = second t2 + minute t2 * 60 + hour t2 * 3600;
          seconds = secs1 - secs2;
          microseconds = microsecond t1 - microsecond t2
      in of_int ((days * 86400 + seconds) * 10 ^ 6 + microseconds) / 10 ^ 6)"

definition j2000 :: datetime where
  "j2000 = \<lparr>year = 2000, month = 1, day = 1, hour = 12, minute = 0, second = 0,
             microsecond = 0\<rparr>"

definition calculate_gha :: "real \<Rightarrow> datetime \<Rightarrow> real" where
  "calculate_gha ra_deg observation_time =
     (let days_since_j2000 = total_seconds_between observation_time j2000 / 86400;
          gmst = 280.46061837 + 360.98564736629 * days_since_j2000;
          hours_since_midnight =
            of_int (hour observation_time) + of_int (minute observation_time) / 60
            + of_int (second observation_time) / 3600;
          gmst = gmst + hours_since_midnight * 15;
          gmst = py_mod gmst 360
      in py_mod (gmst - ra_deg) 360)"

section \<open>Double arithmetic\<close>

text \<open>
  A double is a real number \<open>m * 2 ^ e\<close> with an integer \<open>m\<close> of at most 53 bits.
  \<open>round_double x\<close> is the double nearest to \<open>x\<close>, a tie going to the even \<open>m\<close>: for
  operands that are doubles, the result of \<^verbatim>\<open>+\<close>, \<^verbatim>\<open>-\<close>, \<^verbatim>\<open>*\<close> and \<^verbatim>\<open>/\<close> is
  \<open>round_double\<close> of the exact result. \<open>binary_exponent x\<close> is the exponent of the power
  of two at or below \<open>\<bar>x\<bar>\<close>, so that \<open>2 powr (binary_exponent x - 52)\<close> is the spacing of
  the doubles around \<open>x\<close>. Overflow and subnormal numbers are left out: the model is the
  arithmetic of the doubles between \<open>2 powr - 1022\<close> and \<open>2 powr 1024\<close> in magnitude.
\<close>

definition round_even :: "real \<Rightarrow> int" where
  "round_even x =
     (let f = \<lfloor>x\<rfloor>
      in if x - of_int f < 1 / 2 then f
         else if x - of_int f > 1 / 2 then f + 1
         else if even f then f else f + 1)"

definition binary_exponent :: "real \<Rightarrow> int" where
  "binary_exponent x = \<lfloor>log 2 \<bar>x\<bar>\<rfloor>"

definition round_double :: "real \<Rightarrow> real" where
  "round_double x =
     (if x = 0 then 0
      else let u = 2 powr of_int (binary_exponent x - 52)
           in u * of_int (round_even (x / u)))"

text \<open>
  \<^verbatim>\<open>x % m\<close> on floats, as the interpreter computes it for a modulus that is not zero:
  the remainder of C's \<^verbatim>\<open>fmod\<close>, which is exact and has the sign of \<open>x\<close>; when it is not
  zero and its sign differs from the sign of \<open>m\<close>, the modulus is added, and that sum is
  rounded.
\<close>

definition trunc :: "real \<Rightarrow> int" where
  "trunc x = (if 0 \<le> x then \<lfloor>x\<rfloor> else \<lceil>x\<rceil>)"

definition fmod :: "real \<Rightarrow> real \<Rightarrow> real" where
  "fmod x m = x - m * of_int (trunc (x / m))"

definition py_mod_double :: "real \<Rightarrow> real \<Rightarrow> real" where
  "py_mod_double x m =
     (let md = fmod x m
      in if md \<noteq> 0 then (if (m < 0) \<noteq> (md < 0) then round_double (md + m) else md)
         else 0)"

text \<open>
  \<^verbatim>\<open>calculate_gha\<close> on doubles: the statements of the source in their order, each
  operation rounded. The two decimal literals are the doubles nearest to them,
  \<^verbatim>\<open>total_seconds()\<close> is the rounded quotient of the microseconds by \<open>10 ^ 6\<close>, and the
  fields of the time are small integers, which are doubles. The argument \<open>ra_deg\<close> is a
  double.
\<close>

definition calculate_gha_double :: "real \<Rightarrow> datetime \<Rightarrow> real" where
  "calculate_gha_double ra_deg observation_time =
     (let total_seconds = round_double (total_seconds_between observation_time j2000);
          days_since_j2000 = round_double (total_seconds / 86400);
          gmst = round_double (round_double 280.46061837
                   + round_double (round_double 360.98564736629 * days_since_j2000));
          hours_since_midnight =
            round_double (round_double (of_int (hour observation_time)
                            + round_double (of_int (minute observation_time) / 60))
               + round_double (of_int (second observation_time) / 3600));
          gmst = round_double (gmst + round_double (hours_since_midnight * 15));
          gmst = py_mod_double gmst 360
      in py_mod_double (round_double (gmst - ra_deg)) 360)"

section \<open>Sight\<close>

record Sight =
  ra :: real
  dec :: real
  time :: datetime
  observed_altitude :: real
  observer_height :: real
  temperature :: real
  pressure :: real
  corrected_altitude :: real
  gha :: real

text \<open>
  \<^verbatim>\<open>Sight.__init__\<close>. The argument \<open>time_parsed\<close> is the outcome of
  \<^verbatim>\<open>datetime.fromisoformat(time)\<close>: \<open>None\<close> when the string is rejected, which raises a
  \<^verbatim>\<open>ValueError\<close> between the declination check and the altitude check. The steps are in
  the order of the source.
\<close>

definition Sight_init ::
  "real \<Rightarrow> real \<Rightarrow> real \<Rightarrow> datetime option \<Rightarrow> real \<Rightarrow> real \<Rightarrow> real \<Rightarrow> bool \<Rightarrow> bool
     \<Rightarrow> error + Sight" where
  "Sight_init ra_deg dec_deg altitude time_parsed height temp press apply_refraction apply_dip =
     (if \<not> (- 90 \<le> dec_deg \<and> dec_deg \<le> 90) then Inl (ValueError (BadDeclination dec_deg))
      else case time_parsed of
        None \<Rightarrow> Inl (ValueError InvalidIsoformat)
      | Some t \<Rightarrow>
          if \<not> (0 < altitude \<and> altitude < 90) then Inl (ValueError (BadAltitude altitude))
          else
            (case (if apply_refraction
                   then (case atmospheric_refraction altitude temp press of
                           Inl e \<Rightarrow> Inl e
                         | Inr refraction \<Rightarrow> Inr (altitude - refraction))
                   else Inr altitude) of
               Inl e \<Rightarrow> Inl e
             | Inr corrected \<Rightarrow>
                 let corrected' =
                       (if apply_dip \<and> height > 0 then corrected - horizon_dip height
                        else corrected)
                 in Inr \<lparr>ra = py_mod ra_deg 360, dec = dec_deg, time = t,
                         observed_altitude = altitude, observer_height = height,
                         temperature = temp, pressure = press,
                         corrected_altitude = corrected',
                         gha = calculate_gha ra_deg t\<rparr>))"

text \<open>The two \<^verbatim>\<open>while\<close> loops of \<^verbatim>\<open>get_gp\<close>.\<close>

function add_360_while :: "real \<Rightarrow> real" where
  "add_360_while gp_lon = (if gp_lon < - 180 then add_360_while (gp_lon + 360) else gp_lon)"
  by pat_completeness auto
termination
proof (relation "measure (\<lambda>x. nat \<lceil>(- 180 - x) / 360\<rceil>)")
  show "wf (measure (\<lambda>x. nat \<lceil>(- 180 - x) / 360\<rceil>))" by simp
next
  fix gp_lon :: real
  assume a: "gp_lon < - 180"
  have "(- 180 - (gp_lon + 360)) / 360 = (- 180 - gp_lon) / 360 - 1" by argo
  then have "\<lceil>(- 180 - (gp_lon + 360)) / 360\<rceil> = \<lceil>(- 180 - gp_lon) / 360\<rceil> - 1"
    by (simp only: ceiling_diff_one)
  moreover have "0 < \<lceil>(- 180 - gp_lon) / 360\<rceil>" using a by simp
  ultimately show "(gp_lon + 360, gp_lon) \<in> measure (\<lambda>x. nat \<lceil>(- 180 - x) / 360\<rceil>)"
    by simp
qed

function sub_360_while :: "real \<Rightarrow> real" where
  "sub_360_while gp_lon = (if gp_lon > 180 then sub_360_while (gp_lon - 360) else gp_lon)"
  by pat_completeness auto
termination
proof (relation "measure (\<lambda>x. nat \<lceil>(x - 180) / 360\<rceil>)")
  show "wf (measure (\<lambda>x. nat \<lceil>(x - 180) / 360\<rceil>))" by simp
next
  fix gp_lon :: real
  assume a: "gp_lon > 180"
  have "(gp_lon - 360 - 180) / 360 = (gp_lon - 180) / 360 - 1" by argo
  then have "\<lceil>(gp_lon - 360 - 180) / 360\<rceil> = \<lceil>(gp_lon - 180) / 360\<rceil> - 1"
    by (simp only: ceiling_diff_one)
  moreover have "0 < \<lceil>(gp_lon - 180) / 360\<rceil>" using a by simp
  ultimately show "(gp_lon - 360, gp_lon) \<in> measure (\<lambda>x. nat \<lceil>(x - 180) / 360\<rceil>)"
    by simp
qed

definition get_gp :: "Sight \<Rightarrow> LatLon" where
  "get_gp self =
     (let gp_lat = dec self;
          gp_lon = - gha self;
          gp_lon = add_360_while gp_lon;
          gp_lon = sub_360_while gp_lon
      in LatLon_init gp_lat gp_lon)"

definition get_distance_from_gp :: "Sight \<Rightarrow> real" where
  "get_distance_from_gp self =
     (let co_altitude = 90 - corrected_altitude self
      in radians co_altitude * EARTH_RADIUS_KM)"

section \<open>Intersection of two circles of position\<close>

text \<open>
  \<^verbatim>\<open>calculate_circle_intersection\<close> returns \<^verbatim>\<open>None\<close> or a pair of positions, and raises
  where a division or \<^verbatim>\<open>to_latlon\<close> raises: the outcome is \<open>Inr None\<close>,
  \<open>Inr (Some (int1, int2))\<close> or \<open>Inl e\<close>. The constant \<^verbatim>\<open>1e-10\<close> is \<open>1 / 10 ^ 10\<close>.
\<close>

definition calculate_circle_intersection ::
  "LatLon \<Rightarrow> real \<Rightarrow> LatLon \<Rightarrow> real \<Rightarrow> error + (LatLon \<times> LatLon) option" where
  "calculate_circle_intersection gp1 dist1 gp2 dist2 =
     (case to_rectangular gp1 of (x1, y1, z1) \<Rightarrow>
      case to_rectangular gp2 of (x2, y2, z2) \<Rightarrow>
        let r1 = dist1 / EARTH_RADIUS_KM;
            r2 = dist2 / EARTH_RADIUS_KM;
            dot_product = x1 * x2 + y1 * y2 + z1 * z2;
            dot_product = clamp1 dot_product;
            d = arccos dot_product
        in if d > r1 + r2 then Inr None
           else if d < \<bar>r1 - r2\<bar> then Inr None
           else if d = 0 \<and> \<bar>r1 - r2\<bar> > 1 / 10 ^ 10 then Inr None
           else
             (case py_div (cos r1 - cos r2 * cos d) (sin r2 * sin d) of
                Inl e \<Rightarrow> Inl e
              | Inr cos_a \<Rightarrow>
                  let cos_a = clamp1 cos_a;
                      a = arccos cos_a;
                      perp = normalize_vect
                        (y1 * z2 - z1 * y2, z1 * x2 - x1 * z2, x1 * y2 - y1 * x2);
                      cos_a_val = cos a;
                      sin_a_val = sin a
                  in (case perp of (px, py, pz) \<Rightarrow>
                        let int1_vec = normalize_vect
                              (x1 * cos_a_val + px * sin_a_val * sin d,
                               y1 * cos_a_val + py * sin_a_val * sin d,
                               z1 * cos_a_val + pz * sin_a_val * sin d);
                            int2_vec = normalize_vect
                              (x1 * cos_a_val - px * sin_a_val * sin d,
                               y1 * cos_a_val - py * sin_a_val * sin d,
                               z1 * cos_a_val - pz * sin_a_val * sin d)
                        in (case to_latlon int1_vec of
                              Inl e \<Rightarrow> Inl e
                            | Inr p1 \<Rightarrow>
                                (case to_latlon int2_vec of
                                   Inl e \<Rightarrow> Inl e
                                 | Inr p2 \<Rightarrow> Inr (Some (p1, p2)))))))"

text \<open>
  The quantities the classification of \<^verbatim>\<open>calculate_circle_intersection\<close> is stated in:
  the angular radius of a circle and the angular separation of two geographic positions,
  each the expression of the source.
\<close>

definition angular_radius :: "real \<Rightarrow> real" where
  "angular_radius dist_km = dist_km / EARTH_RADIUS_KM"

definition angular_separation :: "LatLon \<Rightarrow> LatLon \<Rightarrow> real" where
  "angular_separation gp1 gp2 =
     (case to_rectangular gp1 of (x1, y1, z1) \<Rightarrow>
      case to_rectangular gp2 of (x2, y2, z2) \<Rightarrow>
        arccos (clamp1 (x1 * x2 + y1 * y2 + z1 * z2)))"

definition no_intersection_case :: "real \<Rightarrow> real \<Rightarrow> real \<Rightarrow> bool" where
  "no_intersection_case d r1 r2 =
     (d > r1 + r2 \<or> d < \<bar>r1 - r2\<bar> \<or> (d = 0 \<and> \<bar>r1 - r2\<bar> > 1 / 10 ^ 10))"

section \<open>SightCollection\<close>

record SightCollection =
  sights :: "Sight list"

definition SightCollection_init :: "Sight list \<Rightarrow> error + SightCollection" where
  "SightCollection_init ss =
     (if length ss < 2 then Inl (ValueError TooFewSights) else Inr \<lparr>sights = ss\<rparr>)"

text \<open>
  The first statements of both fixes: the geographic positions and the distances of two
  sights, handed to \<^verbatim>\<open>calculate_circle_intersection\<close>.
\<close>

definition sight_pair_intersection :: "Sight \<Rightarrow> Sight \<Rightarrow> error + (LatLon \<times> LatLon) option" where
  "sight_pair_intersection sight1 sight2 =
     (let gp1 = get_gp sight1;
          gp2 = get_gp sight2;
          dist1 = get_distance_from_gp sight1;
          dist2 = get_distance_from_gp sight2
      in calculate_circle_intersection gp1 dist1 gp2 dist2)"

text \<open>
  \<^verbatim>\<open>_calculate_two_sight_fix\<close>. Reading \<^verbatim>\<open>self.sights[0]\<close> and \<^verbatim>\<open>self.sights[1]\<close> raises
  \<^verbatim>\<open>IndexError\<close> on a shorter list.
\<close>

definition calculate_two_sight_fix :: "SightCollection \<Rightarrow> LatLon option \<Rightarrow> error + LatLon" where
  "calculate_two_sight_fix self estimated_position =
     (case sights self of
        sight1 # sight2 # _ \<Rightarrow>
          (case sight_pair_intersection sight1 sight2 of
             Inl e \<Rightarrow> Inl e
           | Inr None \<Rightarrow> Inl (ValueError NoIntersection)
           | Inr (Some (int1, int2)) \<Rightarrow>
               (case estimated_position of
                  Some est \<Rightarrow>
                    (case spherical_distance est int1 of
                       Inl e \<Rightarrow> Inl e
                     | Inr dist_to_int1 \<Rightarrow>
                         (case spherical_distance est int2 of
                            Inl e \<Rightarrow> Inl e
                          | Inr dist_to_int2 \<Rightarrow>
                              Inr (if dist_to_int1 < dist_to_int2 then int1 else int2)))
                | None \<Rightarrow> Inr int1))
      | _ \<Rightarrow> Inl IndexError)"

text \<open>
  \<^verbatim>\<open>_calculate_multi_sight_fix\<close>. The inner loop pairs \<^verbatim>\<open>self.sights[i]\<close> with every
  later sight, the outer loop runs \<open>i\<close> over the list; both append to \<open>positions\<close>. An
  exception in a pair leaves both loops. \<open>average_position\<close> is the rest of the method
  after the check for an empty list: the componentwise sums divided by the number of
  vectors, which is not zero there.
\<close>

fun pairs_inner ::
  "Sight \<Rightarrow> Sight list \<Rightarrow> LatLon option \<Rightarrow> LatLon list \<Rightarrow> error + LatLon list" where
  "pairs_inner sight1 [] estimated_position positions = Inr positions"
| "pairs_inner sight1 (sight2 # later) estimated_position positions =
     (case sight_pair_intersection sight1 sight2 of
        Inl e \<Rightarrow> Inl e
      | Inr None \<Rightarrow> pairs_inner sight1 later estimated_position positions
      | Inr (Some (int1, int2)) \<Rightarrow>
          (case estimated_position of
             Some est \<Rightarrow>
               (case spherical_distance est int1 of
                  Inl e \<Rightarrow> Inl e
                | Inr dist_to_int1 \<Rightarrow>
                    (case spherical_distance est int2 of
                       Inl e \<Rightarrow> Inl e
                     | Inr dist_to_int2 \<Rightarrow>
                         pairs_inner sight1 later estimated_position
                           (positions @ [if dist_to_int1 < dist_to_int2 then int1 else int2])))
           | None \<Rightarrow> pairs_inner sight1 later estimated_position (positions @ [int1])))"

fun pairs_outer :: "Sight list \<Rightarrow> LatLon option \<Rightarrow> LatLon list \<Rightarrow> error + LatLon list" where
  "pairs_outer [] estimated_position positions = Inr positions"
| "pairs_outer (sight1 # later) estimated_position positions =
     (case pairs_inner sight1 later estimated_position positions of
        Inl e \<Rightarrow> Inl e
      | Inr positions' \<Rightarrow> pairs_outer later estimated_position positions')"

definition average_position :: "LatLon list \<Rightarrow> error + LatLon" where
  "average_position positions =
     (let vectors = map to_rectangular positions;
          avg_vector =
            (sum_list (map (\<lambda>(x, y, z). x) vectors) / of_nat (length vectors),
             sum_list (map (\<lambda>(x, y, z). y) vectors) / of_nat (length vectors),
             sum_list (map (\<lambda>(x, y, z). z) vectors) / of_nat (length vectors));
          avg_vector = normalize_vect avg_vector
      in to_latlon avg_vector)"

definition calculate_multi_sight_fix :: "SightCollection \<Rightarrow> LatLon option \<Rightarrow> error + LatLon" where
  "calculate_multi_sight_fix self estimated_position =
     (case pairs_outer (sights self) estimated_position [] of
        Inl e \<Rightarrow> Inl e
      | Inr positions \<Rightarrow>
          if length positions = 0 then Inl (ValueError NoValidIntersections)
          else average_position positions)"

definition get_intersections :: "SightCollection \<Rightarrow> LatLon option \<Rightarrow> error + LatLon" where
  "get_intersections self estimated_position =
     (if length (sights self) = 2 then calculate_two_sight_fix self estimated_position
      else calculate_multi_sight_fix self estimated_position)"

section \<open>What the fixes are compared with\<close>

text \<open>
  The unordered pairs of a list of sights, in the order the two loops visit them.
\<close>

fun sight_pairs :: "Sight list \<Rightarrow> (Sight \<times> Sight) list" where
  "sight_pairs [] = []"
| "sight_pairs (s # later) = map (Pair s) later @ sight_pairs later"

text \<open>A pair is computed without an exception when its outcome is \<open>Inr\<close>.\<close>

definition pair_returns :: "Sight \<times> Sight \<Rightarrow> bool" where
  "pair_returns p =
     (case p of (s1, s2) \<Rightarrow>
        (case sight_pair_intersection s1 s2 of Inr _ \<Rightarrow> True | Inl _ \<Rightarrow> False))"

definition pairs_return :: "Sight list \<Rightarrow> bool" where
  "pairs_return ss = list_all pair_returns (sight_pairs ss)"

definition pair_intersects :: "Sight \<times> Sight \<Rightarrow> bool" where
  "pair_intersects p =
     (case p of (s1, s2) \<Rightarrow>
        (case sight_pair_intersection s1 s2 of Inr (Some _) \<Rightarrow> True | _ \<Rightarrow> False))"

text \<open>The great-circle distance in kilometres, by the haversine formula.\<close>

definition great_circle_km :: "LatLon \<Rightarrow> LatLon \<Rightarrow> real" where
  "great_circle_km p q =
     EARTH_RADIUS_KM * (2 * atan2 (sqrt (haversine_a p q)) (sqrt (1 - haversine_a p q)))"

text \<open>
  The candidate a fix keeps for a pair: the first one without an estimate, and with an
  estimate the first one when it is strictly closer, else the second.
\<close>

definition chosen_point :: "LatLon option \<Rightarrow> LatLon \<Rightarrow> LatLon \<Rightarrow> LatLon" where
  "chosen_point estimated_position int1 int2 =
     (case estimated_position of
        None \<Rightarrow> int1
      | Some est \<Rightarrow> if great_circle_km est int1 < great_circle_km est int2 then int1 else int2)"

definition chosen_of_pair :: "LatLon option \<Rightarrow> Sight \<times> Sight \<Rightarrow> LatLon list" where
  "chosen_of_pair estimated_position p =
     (case p of (s1, s2) \<Rightarrow>
        (case sight_pair_intersection s1 s2 of
           Inr (Some (int1, int2)) \<Rightarrow> [chosen_point estimated_position int1 int2]
         | _ \<Rightarrow> []))"

definition chosen_points :: "LatLon option \<Rightarrow> Sight list \<Rightarrow> LatLon list" where
  "chosen_points estimated_position ss =
     concat (map (chosen_of_pair estimated_position) (sight_pairs ss))"

text \<open>
  The arithmetic mean of the unit vectors of a list of positions, with the module's own
  vector operations \<^verbatim>\<open>add_vecs\<close> and \<^verbatim>\<open>mult_scalar_vect\<close>: the sum of the vectors times
  \<open>1 / n\<close>; and the position it stands for, normalized and converted back.
\<close>

definition mean_vector :: "LatLon list \<Rightarrow> vec3" where
  "mean_vector positions =
     mult_scalar_vect (1 / of_nat (length positions))
       (foldr add_vecs (map to_rectangular positions) (0, 0, 0))"

definition mean_position :: "LatLon list \<Rightarrow> error + LatLon" where
  "mean_position positions = to_latlon (normalize_vect (mean_vector positions))"

section \<open>Concrete observations\<close>

text \<open>
  Three sights taken at the epoch itself, without refraction and at sea level, of
  bodies on the celestial equator: their geographic positions are on the equator at
  longitudes \<open>0\<close>, \<open>-90\<close> and \<open>-180\<close>. Each is the object
  \<^verbatim>\<open>Sight(ra, 0, altitude, "2000-01-01T12:00:00", apply_refraction=False)\<close> builds, with
  the altitudes 30, 45 and 30 degrees.
\<close>

definition sight_A :: Sight where
  "sight_A = \<lparr>ra = 100.46061837, dec = 0, time = j2000, observed_altitude = 30,
               observer_height = 0, temperature = 10, pressure = 101,
               corrected_altitude = 30, gha = 0\<rparr>"

definition sight_B :: Sight where
  "sight_B = \<lparr>ra = 10.46061837, dec = 0, time = j2000, observed_altitude = 45,
               observer_height = 0, temperature = 10, pressure = 101,
               corrected_altitude = 45, gha = 90\<rparr>"

definition sight_C :: Sight where
  "sight_C = \<lparr>ra = 280.46061837, dec = 0, time = j2000, observed_altitude = 30,
               observer_height = 0, temperature = 10, pressure = 101,
               corrected_altitude = 30, gha = 180\<rparr>"

section \<open>Properties of the vector functions\<close>

lemma haversine_a_sym: "haversine_a p q = haversine_a q p"
proof -
  have flip: "(sin ((u - v) / 2))\<^sup>2 = (sin ((v - u) / 2))\<^sup>2" for u v :: real
  proof -
    have "(u - v) / 2 = - ((v - u) / 2)" by argo
    then have "sin ((u - v) / 2) = - sin ((v - u) / 2)" by (metis sin_minus)
    then show ?thesis by simp
  qed
  show ?thesis
    unfolding haversine_a_def Let_def
    by (simp add: flip [of "radians (get_lat q)"] flip [of "radians (get_lon q)"] mult.commute)
qed

text \<open>
  In exact arithmetic the haversine term lies in \<open>[0, 1]\<close> for all real latitudes and
  longitudes, also those outside the geographic ranges.
\<close>

lemma haversine_a_range: "0 \<le> haversine_a p q \<and> haversine_a p q \<le> 1"
proof -
  define u where "u = radians (get_lat p)"
  define v where "v = radians (get_lat q)"
  define s where "s = (sin ((radians (get_lon q) - radians (get_lon p)) / 2))\<^sup>2"
  have s0: "0 \<le> s" and s1: "s \<le> 1"
    unfolding s_def by (simp_all add: abs_square_le_1 abs_sin_le_one)
  have "2 * ((v - u) / 2) = v - u" by argo
  then have "cos (v - u) = 1 - 2 * (sin ((v - u) / 2))\<^sup>2"
    using cos_double_sin [of "(v - u) / 2"] by (simp only:)
  then have half: "(sin ((v - u) / 2))\<^sup>2 = (1 - cos (v - u)) / 2"
    by argo
  have prod: "cos u * cos v = (cos (v - u) + cos (v + u)) / 2"
    by (simp add: cos_add cos_diff)
  have a_eq: "haversine_a p q = (1 - cos (v - u)) / 2 + (cos (v - u) + cos (v + u)) / 2 * s"
    unfolding haversine_a_def Let_def u_def [symmetric] v_def [symmetric] s_def [symmetric]
    by (simp only: half prod)
  have c1: "- 1 \<le> cos (v - u)" "cos (v - u) \<le> 1" by simp_all
  have c2: "- 1 \<le> cos (v + u)" "cos (v + u) \<le> 1" by simp_all
  have alg: "(1 - c) / 2 + (c + c') / 2 * s = 1 / 2 - (1 - s) * c / 2 + s * c' / 2"
    for c c' :: real by (simp add: field_simps)
  have e: "haversine_a p q = 1 / 2 - (1 - s) * cos (v - u) / 2 + s * cos (v + u) / 2"
    unfolding a_eq by (rule alg)
  have t1: "\<bar>(1 - s) * cos (v - u)\<bar> \<le> 1 - s"
    using s1 abs_cos_le_one [of "v - u"] by (simp add: abs_mult mult_left_le)
  have t2: "\<bar>s * cos (v + u)\<bar> \<le> s"
    using s0 abs_cos_le_one [of "v + u"] by (simp add: abs_mult mult_left_le)
  from t1 t2 show ?thesis unfolding e by linarith
qed

text \<open>
  So in exact arithmetic neither square root of \<^verbatim>\<open>spherical_distance\<close> raises. In
  doubles the term of two nearly antipodal positions can round above \<open>1\<close>; the section on
  double arithmetic evaluates the second square root there.
\<close>

lemma spherical_distance_total:
  "spherical_distance p q =
     Inr (EARTH_RADIUS_KM * (2 * atan2 (sqrt (haversine_a p q)) (sqrt (1 - haversine_a p q))))"
  using haversine_a_range [of p q]
  by (simp add: spherical_distance_def py_sqrt_def Let_def)

text \<open>\<^verbatim>\<open>to_rectangular\<close> yields a unit vector for all real latitudes and longitudes.\<close>

lemma to_rectangular_unit:
  "to_rectangular p = (x, y, z) \<Longrightarrow> x\<^sup>2 + y\<^sup>2 + z\<^sup>2 = 1"
proof -
  assume "to_rectangular p = (x, y, z)"
  then have x: "x = cos (radians (lat p)) * cos (radians (lon p))"
    and y: "y = cos (radians (lat p)) * sin (radians (lon p))"
    and z: "z = sin (radians (lat p))"
    by (simp_all add: to_rectangular_def get_lat_def get_lon_def Let_def)
  have alg: "(a * b)\<^sup>2 + (a * c)\<^sup>2 = a\<^sup>2 * (b\<^sup>2 + c\<^sup>2)" for a b c :: real
    by (simp add: power_mult_distrib distrib_left)
  have "x\<^sup>2 + y\<^sup>2 = (cos (radians (lat p)))\<^sup>2 * ((cos (radians (lon p)))\<^sup>2 + (sin (radians (lon p)))\<^sup>2)"
    unfolding x y by (rule alg)
  also have "\<dots> = (cos (radians (lat p)))\<^sup>2" by simp
  finally show ?thesis unfolding z by simp
qed

lemma spherical_distance_km: "spherical_distance p q = Inr (great_circle_km p q)"
  by (simp add: spherical_distance_total great_circle_km_def)

lemma sumsq3_zero_iff: "x\<^sup>2 + y\<^sup>2 + z\<^sup>2 = 0 \<longleftrightarrow> x = 0 \<and> y = 0 \<and> z = (0::real)"
proof
  assume h: "x\<^sup>2 + y\<^sup>2 + z\<^sup>2 = 0"
  have "0 \<le> x\<^sup>2" "0 \<le> y\<^sup>2" "0 \<le> z\<^sup>2" by simp_all
  with h have "x\<^sup>2 = 0" "y\<^sup>2 = 0" "z\<^sup>2 = 0" by linarith+
  then show "x = 0 \<and> y = 0 \<and> z = 0" by simp
next
  assume "x = 0 \<and> y = 0 \<and> z = 0" then show "x\<^sup>2 + y\<^sup>2 + z\<^sup>2 = 0" by simp
qed

text \<open>
  \<^verbatim>\<open>normalize_vect\<close> turns every vector but the zero vector into a unit vector, and
  \<^verbatim>\<open>to_latlon\<close> after it raises on the zero vector only.
\<close>

lemma normalize_vect_unit:
  assumes nz: "x\<^sup>2 + y\<^sup>2 + z\<^sup>2 \<noteq> 0"
    and n: "normalize_vect (x, y, z) = (x', y', z')"
  shows "x'\<^sup>2 + y'\<^sup>2 + z'\<^sup>2 = 1"
proof -
  define m where "m = sqrt (x\<^sup>2 + y\<^sup>2 + z\<^sup>2)"
  have m2: "m\<^sup>2 = x\<^sup>2 + y\<^sup>2 + z\<^sup>2" unfolding m_def by simp
  have m0: "m \<noteq> 0" using nz m2 by auto
  from n m0 have "x' = x / m" "y' = y / m" "z' = z / m"
    by (simp_all add: normalize_vect_def m_def Let_def)
  then have "x'\<^sup>2 + y'\<^sup>2 + z'\<^sup>2 = (x\<^sup>2 + y\<^sup>2 + z\<^sup>2) / m\<^sup>2"
    by (simp add: power_divide add_divide_distrib)
  then show ?thesis using m0 m2 nz by simp
qed

lemma to_latlon_unit:
  "x\<^sup>2 + y\<^sup>2 + z\<^sup>2 = 1 \<Longrightarrow>
     to_latlon (x, y, z) = Inr (LatLon_init (degrees (atan2 z (sqrt (x\<^sup>2 + y\<^sup>2)))) (degrees (atan2 y x)))"
  by (simp add: to_latlon_def Let_def)

lemma to_latlon_normalize_ok:
  assumes nz: "x\<^sup>2 + y\<^sup>2 + z\<^sup>2 \<noteq> 0"
  shows "\<exists>p. to_latlon (normalize_vect (x, y, z)) = Inr p"
proof -
  obtain x' y' z' where n: "normalize_vect (x, y, z) = (x', y', z')"
    by (cases "normalize_vect (x, y, z)") auto
  from normalize_vect_unit [OF nz n] have "x'\<^sup>2 + y'\<^sup>2 + z'\<^sup>2 = 1" .
  then show ?thesis unfolding n by (simp add: to_latlon_unit)
qed

lemma to_latlon_normalize_zero:
  "to_latlon (normalize_vect (0, 0, 0)) = Inl (ValueError ZeroVector)"
  by (simp add: normalize_vect_def to_latlon_def)

lemma to_latlon_normalize_iff:
  "to_latlon (normalize_vect (x, y, z)) = Inl (ValueError ZeroVector) \<longleftrightarrow> x = 0 \<and> y = 0 \<and> z = 0"
proof (cases "x\<^sup>2 + y\<^sup>2 + z\<^sup>2 = 0")
  case True
  then have "x = 0 \<and> y = 0 \<and> z = 0" by (simp only: sumsq3_zero_iff)
  then show ?thesis by (simp add: to_latlon_normalize_zero)
next
  case False
  then have nz: "\<not> (x = 0 \<and> y = 0 \<and> z = 0)" using sumsq3_zero_iff [of x y z] by simp
  from to_latlon_normalize_ok [OF False] obtain p where "to_latlon (normalize_vect (x, y, z)) = Inr p" ..
  then show ?thesis using nz by simp
qed

lemma clamp1_range: "- 1 \<le> clamp1 x \<and> clamp1 x \<le> 1"
  by (simp add: clamp1_def)

lemma clamp1_inside: "- 1 < clamp1 x \<Longrightarrow> clamp1 x < 1 \<Longrightarrow> clamp1 x = x"
  by (auto simp add: clamp1_def max_def min_def split: if_splits)

text \<open>
  The cross product of two unit vectors: its squared length and its being orthogonal to
  the first vector; and that a combination \<open>c * v + s * n\<close> of two orthogonal unit
  vectors is zero only for \<open>c = s = 0\<close>.
\<close>

lemma cross_sq:
  "(y1 * z2 - z1 * y2)\<^sup>2 + (z1 * x2 - x1 * z2)\<^sup>2 + (x1 * y2 - y1 * x2)\<^sup>2 =
     (x1\<^sup>2 + y1\<^sup>2 + z1\<^sup>2) * (x2\<^sup>2 + y2\<^sup>2 + z2\<^sup>2) - (x1 * x2 + y1 * y2 + z1 * z2)\<^sup>2"
  for x1 :: real
  by (simp add: power2_eq_square algebra_simps)

lemma cross_orth:
  "x1 * (y1 * z2 - z1 * y2) + y1 * (z1 * x2 - x1 * z2) + z1 * (x1 * y2 - y1 * x2) = 0"
  for x1 :: real
  by (simp add: algebra_simps)

lemma combo_nonzero:
  fixes x1 y1 z1 px py pz c s :: real
  assumes u1: "x1\<^sup>2 + y1\<^sup>2 + z1\<^sup>2 = 1" and un: "px\<^sup>2 + py\<^sup>2 + pz\<^sup>2 = 1"
    and orth: "x1 * px + y1 * py + z1 * pz = 0"
    and cs: "c \<noteq> 0 \<or> s \<noteq> 0"
  shows "(x1 * c + px * s)\<^sup>2 + (y1 * c + py * s)\<^sup>2 + (z1 * c + pz * s)\<^sup>2 \<noteq> 0"
proof -
  have "(x1 * c + px * s)\<^sup>2 + (y1 * c + py * s)\<^sup>2 + (z1 * c + pz * s)\<^sup>2 =
        (x1\<^sup>2 + y1\<^sup>2 + z1\<^sup>2) * c\<^sup>2 + 2 * c * s * (x1 * px + y1 * py + z1 * pz)
        + (px\<^sup>2 + py\<^sup>2 + pz\<^sup>2) * s\<^sup>2"
    by (simp add: power2_eq_square algebra_simps)
  also have "\<dots> = c\<^sup>2 + s\<^sup>2" by (simp add: u1 un orth)
  finally have e: "(x1 * c + px * s)\<^sup>2 + (y1 * c + py * s)\<^sup>2 + (z1 * c + pz * s)\<^sup>2 = c\<^sup>2 + s\<^sup>2" .
  from cs have "c\<^sup>2 + s\<^sup>2 \<noteq> 0" by (simp add: sum_power2_eq_zero_iff)
  with e show ?thesis by simp
qed

section \<open>Properties of the hour angle and of the geographic position\<close>

lemma j2000_fields:
  "hour j2000 = 12" "minute j2000 = 0" "second j2000 = 0"
  "total_seconds_between j2000 j2000 = 0"
  by (simp_all add: j2000_def total_seconds_between_def)

text \<open>
  The calendar arithmetic at a date away from the epoch: 15 March 2024 has the ordinal
  738960, the epoch day 730120, and 08:30:45.25 of that day is 763763445.25 seconds after
  the epoch.
\<close>

lemma toordinal_2024_03_15:
  "toordinal \<lparr>year = 2024, month = 3, day = 15, hour = 8, minute = 30, second = 45,
      microsecond = 250000\<rparr> = 738960
   \<and> toordinal j2000 = 730120"
  by (simp add: toordinal_def days_before_year_def days_before_month_def is_leap_def j2000_def)

lemma total_seconds_2024_03_15:
  "total_seconds_between \<lparr>year = 2024, month = 3, day = 15, hour = 8, minute = 30, second = 45,
      microsecond = 250000\<rparr> j2000 = 763763445.25"
  by (simp add: total_seconds_between_def toordinal_def days_before_year_def
      days_before_month_def is_leap_def j2000_def)

text \<open>The loops of \<^verbatim>\<open>get_gp\<close> on an hour angle in \<open>[0, 360)\<close>: at most one round of the first.\<close>

declare add_360_while.simps [simp del] sub_360_while.simps [simp del]

lemma add_360_while_id: "- 180 \<le> x \<Longrightarrow> add_360_while x = x"
  by (subst add_360_while.simps) simp

lemma sub_360_while_id: "x \<le> 180 \<Longrightarrow> sub_360_while x = x"
  by (subst sub_360_while.simps) simp

lemma add_360_while_step: "x < - 180 \<Longrightarrow> add_360_while x = add_360_while (x + 360)"
  by (subst add_360_while.simps) simp

lemma get_gp_range:
  assumes "0 \<le> gha s" "gha s < 360"
  shows "lat (get_gp s) = dec s"
    and "lon (get_gp s) = (if gha s \<le> 180 then - gha s else 360 - gha s)"
    and "- 180 \<le> lon (get_gp s)" and "lon (get_gp s) \<le> 180"
proof -
  show "lat (get_gp s) = dec s" by (simp add: get_gp_def LatLon_init_def Let_def)
  show l: "lon (get_gp s) = (if gha s \<le> 180 then - gha s else 360 - gha s)"
  proof (cases "gha s \<le> 180")
    case True
    then have "add_360_while (- gha s) = - gha s" by (simp add: add_360_while_id)
    moreover have "sub_360_while (- gha s) = - gha s" using assms by (simp add: sub_360_while_id)
    ultimately show ?thesis using True by (simp add: get_gp_def LatLon_init_def Let_def)
  next
    case False
    then have "add_360_while (- gha s) = add_360_while (- gha s + 360)"
      by (simp add: add_360_while_step)
    also have "\<dots> = - gha s + 360" using assms by (simp add: add_360_while_id)
    finally have a: "add_360_while (- gha s) = - gha s + 360" .
    have "sub_360_while (- gha s + 360) = - gha s + 360" using False by (simp add: sub_360_while_id)
    with a show ?thesis using False by (simp add: get_gp_def LatLon_init_def Let_def)
  qed
  show "- 180 \<le> lon (get_gp s)" using assms unfolding l by (simp split: if_splits)
  show "lon (get_gp s) \<le> 180" using assms unfolding l by (simp split: if_splits)
qed

section \<open>Outcomes of the intersection of two circles\<close>

text \<open>
  \<^verbatim>\<open>calculate_circle_intersection\<close> has three outcomes. It returns \<^verbatim>\<open>None\<close> exactly in the
  three cases of its checks. Otherwise it raises \<^verbatim>\<open>ZeroDivisionError\<close> when
  \<open>sin r2 * sin d = 0\<close>, and returns two points when \<open>sin r2 * sin d \<noteq> 0\<close>: then both
  candidate vectors are different from the zero vector, so \<^verbatim>\<open>to_latlon\<close> does not raise.
\<close>

lemma cci_None_iff:
  "calculate_circle_intersection gp1 dist1 gp2 dist2 = Inr None \<longleftrightarrow>
     no_intersection_case (angular_separation gp1 gp2) (angular_radius dist1) (angular_radius dist2)"
  by (cases "to_rectangular gp1"; cases "to_rectangular gp2")
     (auto simp add: calculate_circle_intersection_def no_intersection_case_def
        angular_separation_def angular_radius_def Let_def py_div_def
        split: sum.splits prod.splits if_splits)

lemma cci_zero_division:
  assumes "\<not> no_intersection_case (angular_separation gp1 gp2) (angular_radius dist1) (angular_radius dist2)"
    and "sin (angular_radius dist2) * sin (angular_separation gp1 gp2) = 0"
  shows "calculate_circle_intersection gp1 dist1 gp2 dist2 = Inl ZeroDivisionError"
  using assms
  by (cases "to_rectangular gp1"; cases "to_rectangular gp2")
     (auto simp add: calculate_circle_intersection_def no_intersection_case_def
        angular_separation_def angular_radius_def Let_def py_div_def)

lemma cci_steps:
  assumes rect1: "to_rectangular gp1 = (x1, y1, z1)" and rect2: "to_rectangular gp2 = (x2, y2, z2)"
    and d: "arccos (clamp1 (x1 * x2 + y1 * y2 + z1 * z2)) = d"
    and r1: "dist1 / EARTH_RADIUS_KM = r1" and r2: "dist2 / EARTH_RADIUS_KM = r2"
    and ok: "d \<le> r1 + r2" "\<bar>r1 - r2\<bar> \<le> d" "d \<noteq> 0"
    and den: "sin r2 * sin d \<noteq> 0"
    and a: "arccos (clamp1 ((cos r1 - cos r2 * cos d) / (sin r2 * sin d))) = a"
    and perp: "normalize_vect (y1 * z2 - z1 * y2, z1 * x2 - x1 * z2, x1 * y2 - y1 * x2) = (px, py, pz)"
    and i1: "to_latlon (normalize_vect (x1 * cos a + px * sin a * sin d,
               y1 * cos a + py * sin a * sin d, z1 * cos a + pz * sin a * sin d)) = Inr p1"
    and i2: "to_latlon (normalize_vect (x1 * cos a - px * sin a * sin d,
               y1 * cos a - py * sin a * sin d, z1 * cos a - pz * sin a * sin d)) = Inr p2"
  shows "calculate_circle_intersection gp1 dist1 gp2 dist2 = Inr (Some (p1, p2))"
  using ok den
  by (simp add: calculate_circle_intersection_def Let_def py_div_def rect1 rect2 d r1 r2 a perp i1 i2)

lemma cci_returns_points:
  assumes no: "\<not> no_intersection_case (angular_separation gp1 gp2) (angular_radius dist1) (angular_radius dist2)"
    and den: "sin (angular_radius dist2) * sin (angular_separation gp1 gp2) \<noteq> 0"
  shows "\<exists>p q. calculate_circle_intersection gp1 dist1 gp2 dist2 = Inr (Some (p, q))"
proof -
  obtain x1 y1 z1 where v1: "to_rectangular gp1 = (x1, y1, z1)"
    by (cases "to_rectangular gp1") auto
  obtain x2 y2 z2 where v2: "to_rectangular gp2 = (x2, y2, z2)"
    by (cases "to_rectangular gp2") auto
  have u1: "x1\<^sup>2 + y1\<^sup>2 + z1\<^sup>2 = 1" by (rule to_rectangular_unit [OF v1])
  have u2: "x2\<^sup>2 + y2\<^sup>2 + z2\<^sup>2 = 1" by (rule to_rectangular_unit [OF v2])
  define dt where "dt = x1 * x2 + y1 * y2 + z1 * z2"
  define d where "d = arccos (clamp1 dt)"
  have sep: "angular_separation gp1 gp2 = d"
    by (simp add: angular_separation_def v1 v2 d_def dt_def)
  have sd: "sin d \<noteq> 0" using den sep by simp
  have "sin d = sqrt (1 - (clamp1 dt)\<^sup>2)"
    unfolding d_def using clamp1_range [of dt] by (simp add: sin_arccos)
  with sd have "(clamp1 dt)\<^sup>2 \<noteq> 1" by auto
  then have "clamp1 dt \<noteq> 1" "clamp1 dt \<noteq> - 1" by auto
  with clamp1_range [of dt] have "- 1 < clamp1 dt" "clamp1 dt < 1" by auto
  then have cd: "clamp1 dt = dt" by (rule clamp1_inside)
  then have dt2: "dt\<^sup>2 \<noteq> 1" using \<open>(clamp1 dt)\<^sup>2 \<noteq> 1\<close> by simp
  define cx where "cx = y1 * z2 - z1 * y2"
  define cy where "cy = z1 * x2 - x1 * z2"
  define cz where "cz = x1 * y2 - y1 * x2"
  have "cx\<^sup>2 + cy\<^sup>2 + cz\<^sup>2 = 1 - dt\<^sup>2"
    unfolding cx_def cy_def cz_def dt_def using cross_sq [of y1 z2 z1 y2 x2 x1] u1 u2 by simp
  with dt2 have cnz: "cx\<^sup>2 + cy\<^sup>2 + cz\<^sup>2 \<noteq> 0" by simp
  obtain px py pz where perp: "normalize_vect (cx, cy, cz) = (px, py, pz)"
    by (cases "normalize_vect (cx, cy, cz)") auto
  have un: "px\<^sup>2 + py\<^sup>2 + pz\<^sup>2 = 1" by (rule normalize_vect_unit [OF cnz perp])
  define m where "m = sqrt (cx\<^sup>2 + cy\<^sup>2 + cz\<^sup>2)"
  have m0: "m \<noteq> 0" using cnz unfolding m_def by simp
  from perp m0 have pv: "px = cx / m" "py = cy / m" "pz = cz / m"
    by (simp_all add: normalize_vect_def m_def Let_def)
  have "x1 * cx + y1 * cy + z1 * cz = 0"
    unfolding cx_def cy_def cz_def by (rule cross_orth)
  then have "(x1 * cx + y1 * cy + z1 * cz) / m = 0" by simp
  then have orth: "x1 * px + y1 * py + z1 * pz = 0"
    unfolding pv by (simp add: add_divide_distrib)
  define a where "a = arccos (clamp1 ((cos (angular_radius dist1) - cos (angular_radius dist2) * cos d)
      / (sin (angular_radius dist2) * sin d)))"
  have cs: "cos a \<noteq> 0 \<or> sin a * sin d \<noteq> 0"
  proof (cases "cos a = 0")
    case True
    then have "(sin a)\<^sup>2 = 1" using sin_cos_squared_add [of a] by simp
    then have "sin a \<noteq> 0" by auto
    with sd show ?thesis by simp
  qed simp
  then have cs': "cos a \<noteq> 0 \<or> - (sin a * sin d) \<noteq> 0" by simp
  from combo_nonzero [OF u1 un orth cs]
  have n1: "(x1 * cos a + px * sin a * sin d)\<^sup>2 + (y1 * cos a + py * sin a * sin d)\<^sup>2
      + (z1 * cos a + pz * sin a * sin d)\<^sup>2 \<noteq> 0"
    by (simp add: mult.assoc)
  from combo_nonzero [OF u1 un orth cs']
  have n2: "(x1 * cos a - px * sin a * sin d)\<^sup>2 + (y1 * cos a - py * sin a * sin d)\<^sup>2
      + (z1 * cos a - pz * sin a * sin d)\<^sup>2 \<noteq> 0"
    by (simp add: mult.assoc)
  from to_latlon_normalize_ok [OF n1] obtain p where
    p: "to_latlon (normalize_vect (x1 * cos a + px * sin a * sin d,
          y1 * cos a + py * sin a * sin d, z1 * cos a + pz * sin a * sin d)) = Inr p" ..
  from to_latlon_normalize_ok [OF n2] obtain q where
    q: "to_latlon (normalize_vect (x1 * cos a - px * sin a * sin d,
          y1 * cos a - py * sin a * sin d, z1 * cos a - pz * sin a * sin d)) = Inr q" ..
  have d0: "d \<noteq> 0" using sd by auto
  from no have ok1: "d \<le> angular_radius dist1 + angular_radius dist2"
    and ok2: "\<bar>angular_radius dist1 - angular_radius dist2\<bar> \<le> d"
    unfolding sep no_intersection_case_def by auto
  have den': "sin (angular_radius dist2) * sin d \<noteq> 0" using den sep by simp
  have "calculate_circle_intersection gp1 dist1 gp2 dist2 = Inr (Some (p, q))"
  proof (rule cci_steps [OF v1 v2 _ _ _ ok1 ok2 d0 den' _ _ p q])
    show "arccos (clamp1 (x1 * x2 + y1 * y2 + z1 * z2)) = d" by (simp add: d_def dt_def)
    show "dist1 / EARTH_RADIUS_KM = angular_radius dist1" by (simp add: angular_radius_def)
    show "dist2 / EARTH_RADIUS_KM = angular_radius dist2" by (simp add: angular_radius_def)
    show "arccos (clamp1 ((cos (angular_radius dist1) - cos (angular_radius dist2) * cos d)
        / (sin (angular_radius dist2) * sin d))) = a" by (simp add: a_def)
    show "normalize_vect (y1 * z2 - z1 * y2, z1 * x2 - x1 * z2, x1 * y2 - y1 * x2) = (px, py, pz)"
      using perp by (simp add: cx_def cy_def cz_def)
  qed
  then show ?thesis by blast
qed

section \<open>The two loops of the N-sight fix\<close>

text \<open>
  One round of the inner loop, by the outcome of the pair; then both loops. When no
  pair raises they append the chosen points of the intersecting pairs in the order of
  \<open>sight_pairs\<close>; when some pair raises they raise.
\<close>

lemma pairs_inner_step_some:
  "sight_pair_intersection s1 s2 = Inr (Some (int1, int2)) \<Longrightarrow>
     pairs_inner s1 (s2 # later) est acc =
       pairs_inner s1 later est (acc @ [chosen_point est int1 int2])"
  by (cases est) (simp_all add: chosen_point_def spherical_distance_km)

lemma pairs_inner_step_none:
  "sight_pair_intersection s1 s2 = Inr None \<Longrightarrow>
     pairs_inner s1 (s2 # later) est acc = pairs_inner s1 later est acc"
  by simp

lemma pairs_inner_step_error:
  "sight_pair_intersection s1 s2 = Inl e \<Longrightarrow> pairs_inner s1 (s2 # later) est acc = Inl e"
  by simp

lemma pairs_inner_returns:
  "list_all pair_returns (map (Pair s1) later) \<Longrightarrow>
     pairs_inner s1 later est acc =
       Inr (acc @ concat (map (chosen_of_pair est) (map (Pair s1) later)))"
proof (induction later arbitrary: acc)
  case Nil
  then show ?case by simp
next
  case (Cons s2 later)
  from Cons.prems have ret: "pair_returns (s1, s2)"
    and rest: "list_all pair_returns (map (Pair s1) later)" by simp_all
  from ret obtain r where r: "sight_pair_intersection s1 s2 = Inr r"
    by (auto simp add: pair_returns_def split: sum.splits)
  show ?case
  proof (cases r)
    case None
    with r have head: "chosen_of_pair est (s1, s2) = []"
      by (simp add: chosen_of_pair_def)
    from None r have "pairs_inner s1 (s2 # later) est acc = pairs_inner s1 later est acc"
      by (simp only: pairs_inner_step_none)
    then show ?thesis by (simp add: Cons.IH [OF rest] head del: pairs_inner.simps)
  next
    case (Some pq)
    obtain int1 int2 where pq: "pq = (int1, int2)" by (cases pq) auto
    have head: "chosen_of_pair est (s1, s2) = [chosen_point est int1 int2]"
      using r Some pq by (simp add: chosen_of_pair_def)
    from r Some pq have "pairs_inner s1 (s2 # later) est acc =
        pairs_inner s1 later est (acc @ [chosen_point est int1 int2])"
      by (simp only: pairs_inner_step_some)
    then show ?thesis by (simp add: Cons.IH [OF rest] head del: pairs_inner.simps)
  qed
qed

lemma pairs_inner_aborts:
  "\<not> list_all pair_returns (map (Pair s1) later) \<Longrightarrow> \<exists>e. pairs_inner s1 later est acc = Inl e"
proof (induction later arbitrary: acc)
  case Nil
  then show ?case by simp
next
  case (Cons s2 later)
  show ?case
  proof (cases "sight_pair_intersection s1 s2")
    case (Inl e)
    then show ?thesis by simp
  next
    case (Inr r)
    then have "pair_returns (s1, s2)" by (simp add: pair_returns_def)
    with Cons.prems have rest: "\<not> list_all pair_returns (map (Pair s1) later)" by simp
    show ?thesis
    proof (cases r)
      case None
      with Inr have "pairs_inner s1 (s2 # later) est acc = pairs_inner s1 later est acc"
        by (simp only: pairs_inner_step_none)
      with Cons.IH [OF rest] show ?thesis by (simp del: pairs_inner.simps)
    next
      case (Some pq)
      obtain int1 int2 where pq: "pq = (int1, int2)" by (cases pq) auto
      from Inr Some pq have "pairs_inner s1 (s2 # later) est acc =
          pairs_inner s1 later est (acc @ [chosen_point est int1 int2])"
        by (simp only: pairs_inner_step_some)
      with Cons.IH [OF rest] show ?thesis by (simp del: pairs_inner.simps)
    qed
  qed
qed

lemma pairs_outer_returns:
  "pairs_return ss \<Longrightarrow> pairs_outer ss est acc = Inr (acc @ chosen_points est ss)"
proof (induction ss arbitrary: acc)
  case Nil
  then show ?case by (simp add: chosen_points_def)
next
  case (Cons s later)
  from Cons.prems have inner: "list_all pair_returns (map (Pair s) later)"
    and rest: "pairs_return later" by (simp_all add: pairs_return_def)
  show ?case
    by (simp add: pairs_inner_returns [OF inner] Cons.IH [OF rest] chosen_points_def)
qed

lemma pairs_outer_aborts:
  "\<not> pairs_return ss \<Longrightarrow> \<exists>e. pairs_outer ss est acc = Inl e"
proof (induction ss arbitrary: acc)
  case Nil
  then show ?case by (simp add: pairs_return_def)
next
  case (Cons s later)
  show ?case
  proof (cases "list_all pair_returns (map (Pair s) later)")
    case True
    with Cons.prems have "\<not> pairs_return later" by (simp add: pairs_return_def)
    from Cons.IH [OF this] show ?thesis by (simp add: pairs_inner_returns [OF True])
  next
    case False
    from pairs_inner_aborts [OF False] obtain e where "pairs_inner s later est acc = Inl e" by blast
    then show ?thesis by simp
  qed
qed

lemma chosen_of_pair_empty: "chosen_of_pair est p = [] \<longleftrightarrow> \<not> pair_intersects p"
  by (cases p) (simp add: chosen_of_pair_def pair_intersects_def split: sum.splits option.splits prod.splits)

lemma chosen_points_empty:
  "chosen_points est ss = [] \<longleftrightarrow> \<not> list_ex pair_intersects (sight_pairs ss)"
  by (simp add: chosen_points_def chosen_of_pair_empty list_ex_iff)

text \<open>The componentwise sums of the source are the sum of the vectors.\<close>

lemma foldr_add_vecs:
  "foldr add_vecs vs (0, 0, 0) =
     (sum_list (map (\<lambda>(x, y, z). x) vs), sum_list (map (\<lambda>(x, y, z). y) vs),
      sum_list (map (\<lambda>(x, y, z). z) vs))"
  by (induction vs) (auto simp add: add_vecs_def)

lemma average_position_mean: "average_position ps = mean_position ps"
  by (simp add: average_position_def mean_position_def mean_vector_def foldr_add_vecs
      mult_scalar_vect_def Let_def)

lemma mean_position_error:
  "(\<exists>e. mean_position ps = Inl e) \<longleftrightarrow> mean_vector ps = (0, 0, 0)"
proof -
  obtain x y z where m: "mean_vector ps = (x, y, z)" by (cases "mean_vector ps") auto
  show ?thesis
  proof (cases "x = 0 \<and> y = 0 \<and> z = 0")
    case True
    then show ?thesis by (simp add: mean_position_def m to_latlon_normalize_zero)
  next
    case False
    then have "x\<^sup>2 + y\<^sup>2 + z\<^sup>2 \<noteq> 0" using sumsq3_zero_iff [of x y z] by simp
    from to_latlon_normalize_ok [OF this] obtain p where "to_latlon (normalize_vect (x, y, z)) = Inr p" ..
    then show ?thesis using False by (simp add: mean_position_def m)
  qed
qed

lemma to_latlon_error: "to_latlon v = Inl e \<Longrightarrow> e = ValueError ZeroVector"
  by (cases v) (auto simp add: to_latlon_def Let_def split: if_splits)

lemma multi_fix_eval:
  "pairs_return (sights c) \<Longrightarrow>
     calculate_multi_sight_fix c est =
       (if chosen_points est (sights c) = [] then Inl (ValueError NoValidIntersections)
        else mean_position (chosen_points est (sights c)))"
  by (simp add: calculate_multi_sight_fix_def pairs_outer_returns average_position_mean)

lemma multi_fix_aborts:
  "\<not> pairs_return (sights c) \<Longrightarrow> \<exists>e. calculate_multi_sight_fix c est = Inl e"
proof -
  assume "\<not> pairs_return (sights c)"
  from pairs_outer_aborts [OF this] obtain e where "pairs_outer (sights c) est [] = Inl e" by blast
  then show ?thesis by (simp add: calculate_multi_sight_fix_def)
qed

text \<open>
  When no pair raises and some pair intersects, the N-sight fix is the outcome of the
  averaging: the chosen points as unit vectors, their arithmetic mean, normalized and
  converted back. It is a position exactly when the mean vector is not the zero vector.
\<close>

lemma multi_sight_fix_is_mean_position:
  assumes ret: "pairs_return (sights c)"
    and ex: "list_ex pair_intersects (sight_pairs (sights c))"
  shows "calculate_multi_sight_fix c est = mean_position (chosen_points est (sights c))
    \<and> average_position (chosen_points est (sights c)) = mean_position (chosen_points est (sights c))
    \<and> ((\<exists>p. calculate_multi_sight_fix c est = Inr p) \<longleftrightarrow>
          mean_vector (chosen_points est (sights c)) \<noteq> (0, 0, 0))
    \<and> (calculate_multi_sight_fix c est = Inl (ValueError ZeroVector) \<longleftrightarrow>
          mean_vector (chosen_points est (sights c)) = (0, 0, 0))
    \<and> (3 \<le> length (sights c) \<longrightarrow> get_intersections c est = calculate_multi_sight_fix c est)"
proof -
  let ?ch = "chosen_points est (sights c)"
  from ex have ne: "?ch \<noteq> []" by (simp add: chosen_points_empty)
  with multi_fix_eval [OF ret, of est]
  have eq: "calculate_multi_sight_fix c est = mean_position ?ch" by simp
  have err: "(\<exists>e. mean_position ?ch = Inl e) \<longleftrightarrow> mean_vector ?ch = (0, 0, 0)"
    by (rule mean_position_error)
  have pos: "(\<exists>p. mean_position ?ch = Inr p) \<longleftrightarrow> mean_vector ?ch \<noteq> (0, 0, 0)"
  proof (cases "mean_position ?ch")
    case (Inl e)
    with err show ?thesis by auto
  next
    case (Inr p)
    with err show ?thesis by auto
  qed
  have zero: "mean_position ?ch = Inl (ValueError ZeroVector) \<longleftrightarrow> mean_vector ?ch = (0, 0, 0)"
  proof
    assume "mean_position ?ch = Inl (ValueError ZeroVector)"
    with err show "mean_vector ?ch = (0, 0, 0)" by blast
  next
    assume "mean_vector ?ch = (0, 0, 0)"
    with err obtain e where e: "mean_position ?ch = Inl e" by blast
    then have "e = ValueError ZeroVector" unfolding mean_position_def by (rule to_latlon_error)
    with e show "mean_position ?ch = Inl (ValueError ZeroVector)" by simp
  qed
  have disp: "3 \<le> length (sights c) \<longrightarrow> get_intersections c est = calculate_multi_sight_fix c est"
    by (simp add: get_intersections_def)
  from eq pos zero disp show ?thesis by (simp add: average_position_mean)
qed

section \<open>The concrete observations evaluated\<close>

text \<open>
  The three sights are what the constructor builds; their geographic positions, unit
  vectors and angular radii; the intersections of their pairs.
\<close>

lemma gha_A: "calculate_gha 100.46061837 j2000 = 0"
  by (simp add: calculate_gha_def j2000_fields Let_def) (simp add: py_mod_def)

lemma gha_B: "calculate_gha 10.46061837 j2000 = 90"
  by (simp add: calculate_gha_def j2000_fields Let_def) (simp add: py_mod_def)

lemma gha_C: "calculate_gha 280.46061837 j2000 = 180"
  by (simp add: calculate_gha_def j2000_fields Let_def) (simp add: py_mod_def)

lemma init_A: "Sight_init 100.46061837 0 30 (Some j2000) 0 10 101 False True = Inr sight_A"
  by (simp add: Sight_init_def sight_A_def calculate_gha_def j2000_fields Let_def) (simp add: py_mod_def)

lemma init_B: "Sight_init 10.46061837 0 45 (Some j2000) 0 10 101 False True = Inr sight_B"
  by (simp add: Sight_init_def sight_B_def calculate_gha_def j2000_fields Let_def) (simp add: py_mod_def)

lemma init_C: "Sight_init 280.46061837 0 30 (Some j2000) 0 10 101 False True = Inr sight_C"
  by (simp add: Sight_init_def sight_C_def calculate_gha_def j2000_fields Let_def) (simp add: py_mod_def)

lemma gp_A: "get_gp sight_A = LatLon_init 0 0"
  by (simp add: get_gp_def sight_A_def add_360_while_id sub_360_while_id)

lemma gp_B: "get_gp sight_B = LatLon_init 0 (- 90)"
  by (simp add: get_gp_def sight_B_def add_360_while_id sub_360_while_id)

lemma gp_C: "get_gp sight_C = LatLon_init 0 (- 180)"
  by (simp add: get_gp_def sight_C_def add_360_while_id sub_360_while_id)


lemma rect_00: "to_rectangular (LatLon_init 0 0) = (1, 0, 0)"
  by (simp add: to_rectangular_def LatLon_init_def get_lat_def get_lon_def radians_def)

lemma rect_0m90: "to_rectangular (LatLon_init 0 (- 90)) = (0, - 1, 0)"
  by (simp add: to_rectangular_def LatLon_init_def get_lat_def get_lon_def radians_def)

lemma rect_0m180: "to_rectangular (LatLon_init 0 (- 180)) = (- 1, 0, 0)"
  by (simp add: to_rectangular_def LatLon_init_def get_lat_def get_lon_def radians_def)

lemma dist_A: "get_distance_from_gp sight_A / EARTH_RADIUS_KM = pi / 3"
  by (simp add: get_distance_from_gp_def sight_A_def radians_def EARTH_RADIUS_KM_def)

lemma dist_B: "get_distance_from_gp sight_B / EARTH_RADIUS_KM = pi / 4"
  by (simp add: get_distance_from_gp_def sight_B_def radians_def EARTH_RADIUS_KM_def)

lemma dist_C: "get_distance_from_gp sight_C / EARTH_RADIUS_KM = pi / 3"
  by (simp add: get_distance_from_gp_def sight_C_def radians_def EARTH_RADIUS_KM_def)

lemma normalize_vect_unit_id: "x\<^sup>2 + y\<^sup>2 + z\<^sup>2 = 1 \<Longrightarrow> normalize_vect (x, y, z) = (x, y, z)"
  by (simp add: normalize_vect_def)

lemma to_latlon_normalize_unit:
  "x\<^sup>2 + y\<^sup>2 + z\<^sup>2 = 1 \<Longrightarrow>
     to_latlon (normalize_vect (x, y, z)) =
       Inr (LatLon_init (degrees (atan2 z (sqrt (x\<^sup>2 + y\<^sup>2)))) (degrees (atan2 y x)))"
  by (simp add: normalize_vect_unit_id to_latlon_unit)

lemma half_sqrt2_sq: "(sqrt 2 / 2)\<^sup>2 = 1 / 2"
  by (simp add: power_divide)

lemma sqrt_half: "sqrt (1 / 2) = sqrt 2 / 2"
  by (simp add: real_sqrt_divide real_div_sqrt)

lemma latlon_m45_0: "to_latlon (normalize_vect (sqrt 2 / 2, 0, - (sqrt 2 / 2))) = Inr (LatLon_init (- 45) 0)"
  by (subst to_latlon_normalize_unit) (simp_all add: half_sqrt2_sq sqrt_half atan2_def degrees_def arctan_minus arctan_one)

lemma latlon_45_0: "to_latlon (normalize_vect (sqrt 2 / 2, 0, sqrt 2 / 2)) = Inr (LatLon_init 45 0)"
  by (subst to_latlon_normalize_unit) (simp_all add: half_sqrt2_sq sqrt_half atan2_def degrees_def arctan_one)

lemma latlon_45_180: "to_latlon (normalize_vect (- (sqrt 2 / 2), 0, sqrt 2 / 2)) = Inr (LatLon_init 45 180)"
  by (subst to_latlon_normalize_unit) (simp_all add: half_sqrt2_sq sqrt_half atan2_def degrees_def arctan_one)

lemma latlon_m45_180: "to_latlon (normalize_vect (- (sqrt 2 / 2), 0, - (sqrt 2 / 2))) = Inr (LatLon_init (- 45) 180)"
  by (subst to_latlon_normalize_unit) (simp_all add: half_sqrt2_sq sqrt_half atan2_def degrees_def arctan_minus arctan_one)

lemma angle_a: "arccos (clamp1 ((cos (pi / 3) - cos (pi / 4) * cos (pi / 2)) / (sin (pi / 4) * sin (pi / 2)))) = pi / 4"
proof -
  have "(cos (pi / 3) - cos (pi / 4) * cos (pi / 2)) / (sin (pi / 4) * sin (pi / 2)) = (1 / 2) / (sqrt 2 / 2)"
    by (simp add: cos_60 cos_45 sin_45)
  also have "\<dots> = sqrt 2 / 2" by (simp add: real_div_sqrt)
  also have "\<dots> = cos (pi / 4)" by (simp add: cos_45)
  finally have e: "(cos (pi / 3) - cos (pi / 4) * cos (pi / 2)) / (sin (pi / 4) * sin (pi / 2)) = cos (pi / 4)" .
  have "clamp1 (cos (pi / 4)) = cos (pi / 4)" by (simp add: clamp1_def)
  then show ?thesis unfolding e by (simp add: arccos_cos)
qed

lemma pair_AB:
  "sight_pair_intersection sight_A sight_B = Inr (Some (LatLon_init (- 45) 0, LatLon_init 45 0))"
  unfolding sight_pair_intersection_def Let_def gp_A gp_B
proof (rule cci_steps [OF rect_00 rect_0m90 _ dist_A dist_B _ _ _ _ angle_a])
  show "arccos (clamp1 (1 * 0 + 0 * - 1 + 0 * 0)) = pi / 2" by (simp add: clamp1_def)
  show "pi / 2 \<le> pi / 3 + pi / 4" by simp
  show "\<bar>pi / 3 - pi / 4\<bar> \<le> pi / 2" by simp
  show "pi / 2 \<noteq> 0" by simp
  show "sin (pi / 4) * sin (pi / 2) \<noteq> 0" by (simp add: sin_45)
  show "normalize_vect (0 * 0 - 0 * - 1, 0 * 0 - 1 * 0, 1 * - 1 - 0 * 0) = (0, 0, - 1)"
    by (simp add: normalize_vect_def)
  show "to_latlon (normalize_vect (1 * cos (pi / 4) + 0 * sin (pi / 4) * sin (pi / 2),
          0 * cos (pi / 4) + 0 * sin (pi / 4) * sin (pi / 2),
          0 * cos (pi / 4) + - 1 * sin (pi / 4) * sin (pi / 2))) = Inr (LatLon_init (- 45) 0)"
    using latlon_m45_0 by (simp add: cos_45 sin_45)
  show "to_latlon (normalize_vect (1 * cos (pi / 4) - 0 * sin (pi / 4) * sin (pi / 2),
          0 * cos (pi / 4) - 0 * sin (pi / 4) * sin (pi / 2),
          0 * cos (pi / 4) - - 1 * sin (pi / 4) * sin (pi / 2))) = Inr (LatLon_init 45 0)"
    using latlon_45_0 by (simp add: cos_45 sin_45)
qed

lemma pair_CB:
  "sight_pair_intersection sight_C sight_B = Inr (Some (LatLon_init 45 180, LatLon_init (- 45) 180))"
  unfolding sight_pair_intersection_def Let_def gp_C gp_B
proof (rule cci_steps [OF rect_0m180 rect_0m90 _ dist_C dist_B _ _ _ _ angle_a])
  show "arccos (clamp1 (- 1 * 0 + 0 * - 1 + 0 * 0)) = pi / 2" by (simp add: clamp1_def)
  show "pi / 2 \<le> pi / 3 + pi / 4" by simp
  show "\<bar>pi / 3 - pi / 4\<bar> \<le> pi / 2" by simp
  show "pi / 2 \<noteq> 0" by simp
  show "sin (pi / 4) * sin (pi / 2) \<noteq> 0" by (simp add: sin_45)
  show "normalize_vect (0 * 0 - 0 * - 1, 0 * 0 - - 1 * 0, - 1 * - 1 - 0 * 0) = (0, 0, 1)"
    by (simp add: normalize_vect_def)
  show "to_latlon (normalize_vect (- 1 * cos (pi / 4) + 0 * sin (pi / 4) * sin (pi / 2),
          0 * cos (pi / 4) + 0 * sin (pi / 4) * sin (pi / 2),
          0 * cos (pi / 4) + 1 * sin (pi / 4) * sin (pi / 2))) = Inr (LatLon_init 45 180)"
    using latlon_45_180 by (simp add: cos_45 sin_45)
  show "to_latlon (normalize_vect (- 1 * cos (pi / 4) - 0 * sin (pi / 4) * sin (pi / 2),
          0 * cos (pi / 4) - 0 * sin (pi / 4) * sin (pi / 2),
          0 * cos (pi / 4) - 1 * sin (pi / 4) * sin (pi / 2))) = Inr (LatLon_init (- 45) 180)"
    using latlon_m45_180 by (simp add: cos_45 sin_45)
qed

lemma sep_AC: "angular_separation (LatLon_init 0 0) (LatLon_init 0 (- 180)) = pi"
  by (simp add: angular_separation_def rect_00 rect_0m180 clamp1_def)

lemma pair_AC: "sight_pair_intersection sight_A sight_C = Inr None"
  unfolding sight_pair_intersection_def Let_def gp_A gp_C cci_None_iff
  by (simp add: no_intersection_case_def sep_AC angular_radius_def dist_A dist_C)

lemma sep_same: "angular_separation gp gp = 0"
proof -
  obtain x y z where v: "to_rectangular gp = (x, y, z)" by (cases "to_rectangular gp") auto
  from to_rectangular_unit [OF v] have "x * x + y * y + z * z = 1" by (simp add: power2_eq_square)
  then show ?thesis by (simp add: angular_separation_def v clamp1_def)
qed

lemma cci_same:
  "calculate_circle_intersection gp dist_km gp dist_km =
     (if dist_km < 0 then Inr None else Inl ZeroDivisionError)"
proof (cases "dist_km < 0")
  case True
  then have "no_intersection_case (angular_separation gp gp) (angular_radius dist_km) (angular_radius dist_km)"
    by (simp add: no_intersection_case_def sep_same angular_radius_def EARTH_RADIUS_KM_def)
  then show ?thesis using True by (simp add: cci_None_iff)
next
  case False
  then have "\<not> no_intersection_case (angular_separation gp gp) (angular_radius dist_km) (angular_radius dist_km)"
    by (simp add: no_intersection_case_def sep_same angular_radius_def EARTH_RADIUS_KM_def)
  then show ?thesis using False by (simp add: cci_zero_division sep_same)
qed

lemma pair_AA: "sight_pair_intersection sight_A sight_A = Inl ZeroDivisionError"
  unfolding sight_pair_intersection_def Let_def cci_same
  by (simp add: get_distance_from_gp_def sight_A_def radians_def EARTH_RADIUS_KM_def)

lemma pair_BB: "sight_pair_intersection sight_B sight_B = Inl ZeroDivisionError"
  unfolding sight_pair_intersection_def Let_def cci_same
  by (simp add: get_distance_from_gp_def sight_B_def radians_def EARTH_RADIUS_KM_def)



lemma rect_m45_0: "to_rectangular (LatLon_init (- 45) 0) = (sqrt 2 / 2, 0, - (sqrt 2 / 2))"
  by (simp add: to_rectangular_def LatLon_init_def get_lat_def get_lon_def radians_def
      sin_45 cos_45)

lemma mean_m45_twice:
  "mean_position [LatLon_init (- 45) 0, LatLon_init (- 45) 0] = Inr (LatLon_init (- 45) 0)"
  by (simp add: mean_position_def mean_vector_def rect_m45_0 add_vecs_def mult_scalar_vect_def
      latlon_m45_0)

lemma sep_00_0m90: "angular_separation (LatLon_init 0 0) (LatLon_init 0 (- 90)) = pi / 2"
  by (simp add: angular_separation_def rect_00 rect_0m90 clamp1_def)

lemma intersects_AB: "pair_intersects (sight_A, sight_B)"
  by (simp add: pair_intersects_def pair_AB)

lemma intersects_CB: "pair_intersects (sight_C, sight_B)"
  by (simp add: pair_intersects_def pair_CB)

section \<open>Evaluations in double arithmetic\<close>

text \<open>
  A number between \<open>2 powr k\<close> and \<open>2 powr (k + 1)\<close> in magnitude has the binary exponent
  \<open>k\<close>, and it is rounded to a multiple of \<open>2 powr (k - 52)\<close>.
\<close>

lemma binary_exponent_eq:
  assumes "2 powr of_int k \<le> \<bar>x\<bar>" and "\<bar>x\<bar> < 2 powr of_int (k + 1)"
  shows "binary_exponent x = k"
proof -
  have pos: "0 < \<bar>x\<bar>" using assms(1) powr_gt_zero [of 2 "of_int k"] by linarith
  have "of_int k \<le> log 2 \<bar>x\<bar>" using assms(1) pos by (simp add: le_log_iff)
  moreover have "log 2 \<bar>x\<bar> < of_int k + 1" using assms(2) pos by (simp add: log_less_iff)
  ultimately show ?thesis unfolding binary_exponent_def by (simp add: floor_eq_iff)
qed

lemma round_double_eval:
  assumes "2 powr of_int k \<le> \<bar>x\<bar>" and "\<bar>x\<bar> < 2 powr of_int (k + 1)"
    and "round_even (x / 2 powr of_int (k - 52)) = n"
  shows "round_double x = 2 powr of_int (k - 52) * of_int n"
proof -
  have "x \<noteq> 0" using assms(1) powr_gt_zero [of 2 "of_int k"] by auto
  moreover have e: "binary_exponent x = k" by (rule binary_exponent_eq [OF assms(1,2)])
  ultimately show ?thesis unfolding round_double_def e Let_def using assms(3) by simp
qed

text \<open>
  The doubles of the evaluation of \<^verbatim>\<open>calculate_gha\<close>: the literal \<^verbatim>\<open>280.46061837\<close>, the
  sum with the 180 degrees of the twelve hours, and the right ascension
  \<^verbatim>\<open>100.46061837000003\<close>.
\<close>

lemma rd_literal: "round_double 280.46061837 = 1233478844124249 / 2 ^ 42"
  using round_double_eval [where k = 8 and x = "280.46061837" and n = 4933915376496996]
  by (simp add: powr_minus_divide round_even_def Let_def)

lemma rd_fixed: "round_double (1233478844124249 / 2 ^ 42) = 1233478844124249 / 2 ^ 42"
  using round_double_eval [where k = 8 and x = "1233478844124249 / 2 ^ 42"
      and n = 4933915376496996]
  by (simp add: powr_minus_divide round_even_def Let_def)

lemma rd_12: "round_double 12 = 12"
  using round_double_eval [where k = 3 and x = 12 and n = "12 * 2 ^ 49"]
  by (simp add: powr_minus_divide round_even_def Let_def)

lemma rd_180: "round_double 180 = 180"
  using round_double_eval [where k = 7 and x = 180 and n = "180 * 2 ^ 45"]
  by (simp add: powr_minus_divide round_even_def Let_def)

lemma rd_sum: "round_double (1233478844124249 / 2 ^ 42 + 180) = 2025127216122969 / 2 ^ 42"
  using round_double_eval [where k = 8 and x = "1233478844124249 / 2 ^ 42 + 180"
      and n = 8100508864491876]
  by (simp add: powr_minus_divide round_even_def Let_def)

lemma rd_ra: "round_double 100.46061837000003 = 7069287554008465 / 2 ^ 46"
  using round_double_eval [where k = 6 and x = "100.46061837000003" and n = 7069287554008465]
  by (simp add: powr_minus_divide round_even_def Let_def)

lemma rd_diff: "round_double (- (1 / 2 ^ 46)) = - (1 / 2 ^ 46)"
  using round_double_eval [where k = "- 46" and x = "- (1 / 2 ^ 46)" and n = "- (2 ^ 52)"]
  by (simp add: powr_minus_divide round_even_def Let_def)

text \<open>
  The sum \<open>360 - 1 / 2 ^ 46\<close> is not a double: the doubles around 360 are \<open>1 / 2 ^ 44\<close>
  apart, and the nearest one is 360.
\<close>

lemma rd_wrap: "round_double (360 - 1 / 2 ^ 46) = 360"
  using round_double_eval [where k = 8 and x = "360 - 1 / 2 ^ 46" and n = "360 * 2 ^ 44"]
  by (simp add: powr_minus_divide round_even_def Let_def)

lemma py_mod_double_gmst:
  "py_mod_double (2025127216122969 / 2 ^ 42) 360 = 441830472125529 / 2 ^ 42"
  by (simp add: py_mod_double_def fmod_def trunc_def Let_def)

lemma py_mod_double_wrap: "py_mod_double (- (1 / 2 ^ 46)) 360 = 360"
proof -
  have "\<lceil>- (1 / 2 ^ 46) / 360 :: real\<rceil> = 0"
    by (rule ceiling_unique) simp_all
  then have "fmod (- (1 / 2 ^ 46)) 360 = - (1 / 2 ^ 46)"
    by (simp add: fmod_def trunc_def)
  then have "py_mod_double (- (1 / 2 ^ 46)) 360 = round_double (- (1 / 2 ^ 46) + 360)"
    by (simp add: py_mod_double_def Let_def)
  also have "- (1 / 2 ^ 46) + 360 = 360 - 1 / (2 ^ 46 :: real)" by simp
  finally show ?thesis by (simp only: rd_wrap)
qed

lemma gmst_epoch:
  "round_double (round_double (round_double 280.46061837
       + round_double (round_double 360.98564736629 * 0))
     + round_double (round_double (round_double (12 + round_double (0 / 60))
          + round_double (0 / 3600)) * 15))
   = 2025127216122969 / 2 ^ 42"
proof -
  have z: "round_double 0 = 0" by (simp add: round_double_def)
  have "round_double (round_double 280.46061837 + round_double (round_double 360.98564736629 * 0))
      = 1233478844124249 / 2 ^ 42"
    by (simp only: mult_zero_right z add_0_right rd_literal rd_fixed)
  moreover have "round_double (round_double (round_double (12 + round_double (0 / 60))
          + round_double (0 / 3600)) * 15) = 180"
    by (simp add: z rd_12 rd_180)
  ultimately show ?thesis by (simp only: rd_sum)
qed

text \<open>
  The second square root of \<^verbatim>\<open>spherical_distance\<close> at the haversine term
  \<^verbatim>\<open>1.0000000000000002\<close>, the double \<open>1 + 1 / 2 ^ 52\<close> next above \<open>1\<close>: the difference
  \<open>1 - a\<close> is the double \<open>- (1 / 2 ^ 52)\<close>, and \<^verbatim>\<open>math.sqrt\<close> raises.
\<close>

lemma haversine_term_above_one_raises:
  "py_sqrt (round_double (1 - (1 + 1 / 2 ^ 52))) = Inl (ValueError MathDomain)"
proof -
  have "round_double (- (1 / 2 ^ 52)) = - (1 / 2 ^ 52)"
    using round_double_eval [where k = "- 52" and x = "- (1 / 2 ^ 52)" and n = "- (2 ^ 52)"]
    by (simp add: powr_minus_divide round_even_def Let_def)
  then show ?thesis by (simp add: py_sqrt_def)
qed

section \<open>The two-sight fix by the outcomes of its steps\<close>

text \<open>
  In exact arithmetic the distance of the haversine formula is the great-circle
  distance: the Earth radius times the angle between the two unit vectors. The angle is
  \<open>angular_separation\<close>, the arc cosine of their dot product, and the haversine term is
  half of one minus that dot product.
\<close>

lemma atan2_half_angle:
  assumes "0 \<le> a" and "a \<le> 1"
  shows "2 * atan2 (sqrt a) (sqrt (1 - a)) = arccos (1 - 2 * a)"
proof -
  define h where "h = arccos (1 - 2 * a) / 2"
  have r: "- 1 \<le> 1 - 2 * a" "1 - 2 * a \<le> 1" using assms by simp_all
  have c: "cos (2 * h) = 1 - 2 * a" unfolding h_def using r by (simp add: cos_arccos)
  have h0: "0 \<le> h" unfolding h_def using arccos_lbound [OF r] by simp
  have h1: "h \<le> pi / 2" unfolding h_def using arccos_ubound [OF r] by simp
  have s2: "(sin h)\<^sup>2 = a" using c cos_double_sin [of h] by simp
  have c2: "(cos h)\<^sup>2 = 1 - a" using s2 sin_cos_squared_add [of h] by simp
  have sn: "0 \<le> sin h" using h0 h1 by (intro sin_ge_zero) simp_all
  have cn: "0 \<le> cos h" using h0 h1 by (intro cos_ge_zero) simp_all
  have s: "sqrt a = sin h" using s2 sn by (metis real_sqrt_abs abs_of_nonneg)
  have co: "sqrt (1 - a) = cos h" using c2 cn by (metis real_sqrt_abs abs_of_nonneg)
  have "atan2 (sin h) (cos h) = h"
  proof (cases "cos h = 0")
    case True
    have "\<not> h < pi / 2"
    proof
      assume "h < pi / 2"
      with h0 have "0 < cos h" by (intro cos_gt_zero_pi) simp_all
      with True show False by simp
    qed
    with h1 have e: "h = pi / 2" by simp
    have "atan2 (sin (pi / 2)) (cos (pi / 2)) = pi / 2" by (simp add: atan2_def)
    then show ?thesis by (simp only: e)
  next
    case False
    with cn have pos: "0 < cos h" by simp
    have "h \<noteq> pi / 2"
    proof
      assume "h = pi / 2"
      then have "cos h = 0" by (simp only: cos_pi_half)
      with pos show False by simp
    qed
    with h1 have "h < pi / 2" by simp
    then have "arctan (tan h) = h" using h0 by (intro arctan_tan) simp_all
    then show ?thesis using pos by (simp add: atan2_def tan_def)
  qed
  then show ?thesis unfolding s co h_def by simp
qed

lemma dot_haversine:
  "to_rectangular p = (x1, y1, z1) \<Longrightarrow> to_rectangular q = (x2, y2, z2) \<Longrightarrow>
     x1 * x2 + y1 * y2 + z1 * z2 = 1 - 2 * haversine_a p q"
proof -
  assume p: "to_rectangular p = (x1, y1, z1)" and q: "to_rectangular q = (x2, y2, z2)"
  define u where "u = radians (get_lat p)"
  define v where "v = radians (get_lat q)"
  define k where "k = radians (get_lon p)"
  define l where "l = radians (get_lon q)"
  from p have p': "x1 = cos u * cos k" "y1 = cos u * sin k" "z1 = sin u"
    by (simp_all add: to_rectangular_def Let_def u_def k_def)
  from q have q': "x2 = cos v * cos l" "y2 = cos v * sin l" "z2 = sin v"
    by (simp_all add: to_rectangular_def Let_def v_def l_def)
  have dbl: "2 * (sin (t / 2))\<^sup>2 = 1 - cos t" for t :: real
    using cos_double_sin [of "t / 2"] by simp
  have "2 * haversine_a p q
      = 2 * (sin ((v - u) / 2))\<^sup>2 + cos u * cos v * (2 * (sin ((l - k) / 2))\<^sup>2)"
    unfolding haversine_a_def Let_def u_def [symmetric] v_def [symmetric] k_def [symmetric]
      l_def [symmetric]
    by (simp add: algebra_simps)
  then have a: "2 * haversine_a p q = (1 - cos (v - u)) + cos u * cos v * (1 - cos (l - k))"
    by (simp only: dbl)
  show ?thesis unfolding p' q' using a by (simp add: cos_diff algebra_simps)
qed

lemma spherical_distance_is_great_circle:
  "spherical_distance p q = Inr (EARTH_RADIUS_KM * angular_separation p q)"
proof -
  obtain x1 y1 z1 where p: "to_rectangular p = (x1, y1, z1)" by (cases "to_rectangular p") auto
  obtain x2 y2 z2 where q: "to_rectangular q = (x2, y2, z2)" by (cases "to_rectangular q") auto
  note r = haversine_a_range [of p q]
  have d: "x1 * x2 + y1 * y2 + z1 * z2 = 1 - 2 * haversine_a p q" by (rule dot_haversine [OF p q])
  have "clamp1 (1 - 2 * haversine_a p q) = 1 - 2 * haversine_a p q"
    using r by (simp add: clamp1_def)
  then have "angular_separation p q = arccos (1 - 2 * haversine_a p q)"
    by (simp add: angular_separation_def p q d)
  also have "\<dots> = 2 * atan2 (sqrt (haversine_a p q)) (sqrt (1 - haversine_a p q))"
    using atan2_half_angle [of "haversine_a p q"] r by simp
  finally show ?thesis by (simp add: spherical_distance_total)
qed

text \<open>
  For two sights whose circles intersect in \<open>int1\<close> and \<open>int2\<close>: without an estimate the
  fix is \<open>int1\<close>; with an estimate for which both distances are computed it is \<open>int1\<close>
  when the first distance is strictly smaller, and \<open>int2\<close> otherwise. In exact
  arithmetic both distances are computed, and the fix is the candidate at the strictly
  smaller angle from the estimate, the second one on a tie.
\<close>

lemma two_sight_fix_no_estimate:
  "sights c = [s1, s2] \<Longrightarrow> sight_pair_intersection s1 s2 = Inr (Some (int1, int2)) \<Longrightarrow>
     calculate_two_sight_fix c None = Inr int1"
  by (simp add: calculate_two_sight_fix_def)

lemma two_sight_fix_estimate:
  "sights c = [s1, s2] \<Longrightarrow> sight_pair_intersection s1 s2 = Inr (Some (int1, int2)) \<Longrightarrow>
     spherical_distance est int1 = Inr d1 \<Longrightarrow> spherical_distance est int2 = Inr d2 \<Longrightarrow>
     calculate_two_sight_fix c (Some est) = Inr (if d1 < d2 then int1 else int2)"
  by (simp add: calculate_two_sight_fix_def)

lemma two_sight_fix_exact:
  "sights c = [s1, s2] \<Longrightarrow> sight_pair_intersection s1 s2 = Inr (Some (int1, int2)) \<Longrightarrow>
     calculate_two_sight_fix c (Some est) =
       Inr (if angular_separation est int1 < angular_separation est int2 then int1 else int2)"
  by (simp add: calculate_two_sight_fix_def spherical_distance_is_great_circle
      EARTH_RADIUS_KM_def)

section \<open>Claims about LatLon and the great-circle distance\<close>


text \<open>
  Claim C9. The great-circle distance is symmetric: for all positions \<open>a\<close> and \<open>b\<close>,
  \<^verbatim>\<open>spherical_distance(a, b)\<close> and \<^verbatim>\<open>spherical_distance(b, a)\<close> are the same outcome.
\<close>

theorem spherical_distance_symmetric:
  "spherical_distance a b = spherical_distance b a"
  by (simp add: spherical_distance_def haversine_a_sym [of a b])

section \<open>Claims about the hour angle and the sight\<close>

text \<open>
  Claim C8, evaluated where it fails, in double arithmetic. The right ascension
  \<^verbatim>\<open>100.46061837000003\<close> is the double \<open>7069287554008465 / 2 ^ 46\<close>. At the epoch itself
  the sidereal time, normalized by \<^verbatim>\<open>% 360\<close>, is the double just below it, and the
  difference is \<open>- (1 / 2 ^ 46)\<close>. The float remainder of that difference by 360 is the
  sum of \<open>- (1 / 2 ^ 46)\<close> and \<open>360\<close>, rounded: \<open>360\<close> itself. So \<^verbatim>\<open>calculate_gha\<close> returns
  \<open>360\<close>, which is not in \<open>[0, 360)\<close>.
\<close>

theorem calculate_gha_returns_360:
  "round_double 100.46061837000003 = 7069287554008465 / 2 ^ 46
   \<and> py_mod_double (- (1 / 2 ^ 46)) 360 = 360
   \<and> calculate_gha_double (round_double 100.46061837000003) j2000 = 360
   \<and> \<not> calculate_gha_double (round_double 100.46061837000003) j2000 < 360"
proof -
  have z: "round_double 0 = 0" by (simp add: round_double_def)
  have d: "441830472125529 / 2 ^ 42 - 7069287554008465 / 2 ^ 46 = - (1 / (2 ^ 46 :: real))"
    by simp
  have "calculate_gha_double (round_double 100.46061837000003) j2000
      = py_mod_double (round_double
          (py_mod_double (round_double (round_double (round_double 280.46061837
       + round_double (round_double 360.98564736629 * 0))
     + round_double (round_double (round_double (12 + round_double (0 / 60))
          + round_double (0 / 3600)) * 15))) 360 - round_double 100.46061837000003)) 360"
    by (simp add: calculate_gha_double_def z j2000_fields Let_def)
  also have "\<dots> = py_mod_double (round_double
      (441830472125529 / 2 ^ 42 - 7069287554008465 / 2 ^ 46)) 360"
    by (simp only: gmst_epoch py_mod_double_gmst rd_ra)
  also have "\<dots> = 360" by (simp only: d rd_diff py_mod_double_wrap)
  finally have r: "calculate_gha_double (round_double 100.46061837000003) j2000 = 360" .
  with rd_ra py_mod_double_wrap show ?thesis by simp
qed

text \<open>
  Claim C7, as the code has it. For every sight whose hour angle lies in \<open>[0, 360)\<close>,
  \<^verbatim>\<open>get_gp\<close> returns the declination as latitude and, as longitude, \<open>- GHA\<close> when
  \<open>GHA \<le> 180\<close> and \<open>360 - GHA\<close> otherwise. The longitude lies in \<open>[-180, 180)\<close>: it is
  \<open>-180\<close> exactly when \<open>GHA = 180\<close>, and it is never \<open>180\<close>.
\<close>

theorem get_gp_longitude_range:
  assumes "0 \<le> gha s" and "gha s < 360"
  shows "lat (get_gp s) = dec s
    \<and> lon (get_gp s) = (if gha s \<le> 180 then - gha s else 360 - gha s)
    \<and> - 180 \<le> lon (get_gp s) \<and> lon (get_gp s) < 180
    \<and> (lon (get_gp s) = - 180 \<longleftrightarrow> gha s = 180)"
proof -
  note r = get_gp_range [OF assms]
  have "lon (get_gp s) < 180" using assms unfolding r(2) by (simp split: if_splits)
  moreover have "lon (get_gp s) = - 180 \<longleftrightarrow> gha s = 180"
    using assms unfolding r(2) by (auto split: if_splits)
  ultimately show ?thesis using r by simp
qed

text \<open>
  The sight built by \<^verbatim>\<open>Sight(ra=280.46061837, dec=0, altitude=30,
  time="2000-01-01T12:00:00", apply_refraction=False)\<close> has the hour angle \<open>180\<close>, and the
  theorem gives its geographic position the longitude \<open>-180\<close>.
\<close>

theorem get_gp_longitude_range_witness:
  "(0 \<le> gha sight_C \<and> gha sight_C < 360)
   \<and> lat (get_gp sight_C) = 0 \<and> lon (get_gp sight_C) = - 180"
proof -
  have g: "gha sight_C = 180" and d: "dec sight_C = 0" by (simp_all add: sight_C_def)
  have h1: "0 \<le> gha sight_C" and h2: "gha sight_C < 360" by (simp_all add: g)
  from get_gp_longitude_range [OF h1 h2] show ?thesis by (simp add: g d)
qed

text \<open>
  Claim C7 as stated fails: the constructor builds a sight whose hour angle is \<open>180\<close>,
  inside \<open>[0, 360)\<close>, and \<^verbatim>\<open>get_gp\<close> returns the longitude \<open>-180\<close> for it, outside
  \<open>(-180, 180]\<close>.
\<close>

theorem get_gp_returns_minus_180:
  "Sight_init 280.46061837 0 30 (Some j2000) 0 10 101 False True = Inr sight_C
   \<and> 0 \<le> gha sight_C \<and> gha sight_C < 360
   \<and> get_gp sight_C = LatLon_init 0 (- 180)
   \<and> lon (get_gp sight_C) = - 180"
proof -
  have "0 \<le> gha sight_C \<and> gha sight_C < 360" by (simp add: sight_C_def)
  moreover have "lon (get_gp sight_C) = - 180" by (simp add: gp_C LatLon_init_def)
  ultimately show ?thesis using init_C gp_C by blast
qed

text \<open>
  Claim C6. \<^verbatim>\<open>Sight.__init__\<close> raises a \<^verbatim>\<open>ValueError\<close> whenever the declination is outside
  \<open>[-90, 90]\<close>, and whenever the altitude is not strictly between \<open>0\<close> and \<open>90\<close>; with a
  valid declination and a well-formed time the latter error names the altitude.
  \<^verbatim>\<open>SightCollection.__init__\<close> raises a \<^verbatim>\<open>ValueError\<close> on fewer than two sights. In each
  case the constructor's outcome is the error: no object is built.
\<close>

theorem construction_validation:
  "(dec_deg < - 90 \<or> 90 < dec_deg \<longrightarrow>
      Sight_init ra_deg dec_deg altitude tp height temp press ar ad
        = Inl (ValueError (BadDeclination dec_deg)))
   \<and> (altitude \<le> 0 \<or> 90 \<le> altitude \<longrightarrow>
      (\<exists>v. Sight_init ra_deg dec_deg altitude tp height temp press ar ad = Inl (ValueError v)))
   \<and> ((altitude \<le> 0 \<or> 90 \<le> altitude) \<and> - 90 \<le> dec_deg \<and> dec_deg \<le> 90 \<longrightarrow>
      Sight_init ra_deg dec_deg altitude (Some t) height temp press ar ad
        = Inl (ValueError (BadAltitude altitude)))
   \<and> (length ss < 2 \<longrightarrow> SightCollection_init ss = Inl (ValueError TooFewSights))"
  by (cases tp) (auto simp add: Sight_init_def SightCollection_init_def)

text \<open>
  A declination of 95 degrees, an altitude of exactly 0 degrees, and a collection of the
  single sight \<open>sight_A\<close>.
\<close>

theorem construction_validation_witness:
  "Sight_init 101.2875 95 55.5 (Some j2000) 10 10 101 True True = Inl (ValueError (BadDeclination 95))
   \<and> Sight_init 101.2875 (- 16.7161) 0 (Some j2000) 10 10 101 True True = Inl (ValueError (BadAltitude 0))
   \<and> SightCollection_init [sight_A] = Inl (ValueError TooFewSights)"
  using construction_validation [where dec_deg = 95 and ra_deg = "101.2875" and altitude = "55.5"
      and tp = "Some j2000" and height = 10 and temp = 10 and press = 101 and ar = True
      and ad = True and ss = "[sight_A]"]
    construction_validation [where dec_deg = "- 16.7161" and ra_deg = "101.2875" and altitude = 0
      and tp = "Some j2000" and t = j2000 and height = 10 and temp = 10 and press = 101
      and ar = True and ad = True and ss = "[sight_A]"]
  by simp

section \<open>Claims about the intersection of two circles\<close>

text \<open>
  Claim C2, evaluated where it fails. Two circles with the same centre (0, 0) and the
  same radius of 1000 km are in none of the three no-intersection cases (their angular
  separation is \<open>0\<close> and their radii are equal), and \<^verbatim>\<open>calculate_circle_intersection\<close>
  returns no two candidate points: the division by \<open>sin r2 * sin d = 0\<close> raises
  \<^verbatim>\<open>ZeroDivisionError\<close>.
\<close>

theorem circle_intersection_same_circle_raises:
  "angular_separation (LatLon_init 0 0) (LatLon_init 0 0) = 0
   \<and> \<not> no_intersection_case (angular_separation (LatLon_init 0 0) (LatLon_init 0 0))
         (angular_radius 1000) (angular_radius 1000)
   \<and> calculate_circle_intersection (LatLon_init 0 0) 1000 (LatLon_init 0 0) 1000
       = Inl ZeroDivisionError"
  by (simp add: sep_same no_intersection_case_def cci_same angular_radius_def EARTH_RADIUS_KM_def)

text \<open>
  Claim C3, evaluated where it fails. For every centre and every radius that is not
  negative, two equal circles pass the three checks and the division raises
  \<^verbatim>\<open>ZeroDivisionError\<close>; so does a second circle of radius \<open>0\<close> whose centre lies on the
  first circle, here the centres (0, 0) and (0, -90) with a first radius of a quarter of
  the circumference.
\<close>

theorem circle_intersection_zero_denominator:
  "calculate_circle_intersection gp dist_km gp dist_km =
     (if dist_km < 0 then Inr None else Inl ZeroDivisionError)
   \<and> sin (angular_radius dist_km) * sin (angular_separation gp gp) = 0
   \<and> calculate_circle_intersection (LatLon_init 0 0) (EARTH_RADIUS_KM * (pi / 2))
        (LatLon_init 0 (- 90)) 0 = Inl ZeroDivisionError"
proof -
  have r: "angular_radius (EARTH_RADIUS_KM * (pi / 2)) = pi / 2" "angular_radius 0 = 0"
    by (simp_all add: angular_radius_def EARTH_RADIUS_KM_def)
  have "\<not> no_intersection_case (angular_separation (LatLon_init 0 0) (LatLon_init 0 (- 90)))
      (angular_radius (EARTH_RADIUS_KM * (pi / 2))) (angular_radius 0)"
    unfolding sep_00_0m90 r by (simp add: no_intersection_case_def)
  moreover have "sin (angular_radius 0) * sin (angular_separation (LatLon_init 0 0) (LatLon_init 0 (- 90))) = 0"
    unfolding r by simp
  ultimately have "calculate_circle_intersection (LatLon_init 0 0) (EARTH_RADIUS_KM * (pi / 2))
        (LatLon_init 0 (- 90)) 0 = Inl ZeroDivisionError"
    by (rule cci_zero_division)
  then show ?thesis by (simp add: cci_same sep_same)
qed

section \<open>Claims about the fixes\<close>

text \<open>
  Claim C4, evaluated where it fails. The collection of \<open>sight_A\<close> twice and \<open>sight_B\<close> is
  accepted by the constructor. The pair of \<open>sight_A\<close> and \<open>sight_B\<close> intersects, and the mean
  of the points chosen for the two intersecting pairs is the position (-45, 0). The
  N-sight fix is not that position: the first pair, \<open>sight_A\<close> with itself, raises
  \<^verbatim>\<open>ZeroDivisionError\<close>, and the fix raises it too, with or without an estimate.
\<close>

theorem multi_sight_fix_raises_on_equal_sights:
  "Sight_init 100.46061837 0 30 (Some j2000) 0 10 101 False True = Inr sight_A
   \<and> Sight_init 10.46061837 0 45 (Some j2000) 0 10 101 False True = Inr sight_B
   \<and> SightCollection_init [sight_A, sight_A, sight_B] = Inr \<lparr>sights = [sight_A, sight_A, sight_B]\<rparr>
   \<and> pair_intersects (sight_A, sight_B)
   \<and> sight_pair_intersection sight_A sight_A = Inl ZeroDivisionError
   \<and> mean_position [LatLon_init (- 45) 0, LatLon_init (- 45) 0] = Inr (LatLon_init (- 45) 0)
   \<and> calculate_multi_sight_fix \<lparr>sights = [sight_A, sight_A, sight_B]\<rparr> est = Inl ZeroDivisionError
   \<and> get_intersections \<lparr>sights = [sight_A, sight_A, sight_B]\<rparr> est = Inl ZeroDivisionError"
proof -
  have "SightCollection_init [sight_A, sight_A, sight_B] = Inr \<lparr>sights = [sight_A, sight_A, sight_B]\<rparr>
   \<and> pair_intersects (sight_A, sight_B)
   \<and> sight_pair_intersection sight_A sight_A = Inl ZeroDivisionError
   \<and> mean_position [LatLon_init (- 45) 0, LatLon_init (- 45) 0] = Inr (LatLon_init (- 45) 0)
   \<and> calculate_multi_sight_fix \<lparr>sights = [sight_A, sight_A, sight_B]\<rparr> est = Inl ZeroDivisionError
   \<and> get_intersections \<lparr>sights = [sight_A, sight_A, sight_B]\<rparr> est = Inl ZeroDivisionError"
    by (simp add: SightCollection_init_def intersects_AB pair_AA mean_m45_twice
        calculate_multi_sight_fix_def get_intersections_def)
  with init_A init_B show ?thesis by blast
qed

text \<open>
  Claim C5, evaluated where it fails. The collection of \<open>sight_A\<close>, \<open>sight_C\<close> and twice
  \<open>sight_B\<close> is accepted by the constructor. Without an estimate, the circles of
  \<open>sight_A\<close> and \<open>sight_C\<close> do not intersect: the inner loop skips the pair and goes on to
  append the first candidate of \<open>sight_A\<close> with \<open>sight_B\<close>, twice. The pairs of \<open>sight_A\<close>
  with \<open>sight_B\<close> and of \<open>sight_C\<close> with \<open>sight_B\<close> intersect. The last pair, \<open>sight_B\<close> with
  itself, raises \<^verbatim>\<open>ZeroDivisionError\<close>, and the fix raises it too, although pairs of the
  collection yield valid intersections.
\<close>

theorem multi_sight_fix_raises_although_pairs_intersect:
  "Sight_init 100.46061837 0 30 (Some j2000) 0 10 101 False True = Inr sight_A
   \<and> Sight_init 280.46061837 0 30 (Some j2000) 0 10 101 False True = Inr sight_C
   \<and> Sight_init 10.46061837 0 45 (Some j2000) 0 10 101 False True = Inr sight_B
   \<and> SightCollection_init [sight_A, sight_C, sight_B, sight_B]
        = Inr \<lparr>sights = [sight_A, sight_C, sight_B, sight_B]\<rparr>
   \<and> sight_pair_intersection sight_A sight_C = Inr None
   \<and> pairs_inner sight_A [sight_C, sight_B, sight_B] None []
        = Inr [LatLon_init (- 45) 0, LatLon_init (- 45) 0]
   \<and> pair_intersects (sight_A, sight_B)
   \<and> pair_intersects (sight_C, sight_B)
   \<and> sight_pair_intersection sight_B sight_B = Inl ZeroDivisionError
   \<and> calculate_multi_sight_fix \<lparr>sights = [sight_A, sight_C, sight_B, sight_B]\<rparr> None
        = Inl ZeroDivisionError
   \<and> get_intersections \<lparr>sights = [sight_A, sight_C, sight_B, sight_B]\<rparr> None
        = Inl ZeroDivisionError"
proof -
  have inner: "pairs_inner sight_A [sight_C, sight_B, sight_B] None []
        = Inr [LatLon_init (- 45) 0, LatLon_init (- 45) 0]"
    by (simp add: pair_AC pair_AB)
  have fx: "calculate_multi_sight_fix \<lparr>sights = [sight_A, sight_C, sight_B, sight_B]\<rparr> None
        = Inl ZeroDivisionError"
    by (simp add: calculate_multi_sight_fix_def pair_AC pair_AB pair_CB pair_BB)
  then have gi: "get_intersections \<lparr>sights = [sight_A, sight_C, sight_B, sight_B]\<rparr> None
        = Inl ZeroDivisionError"
    by (simp add: get_intersections_def)
  have "SightCollection_init [sight_A, sight_C, sight_B, sight_B]
        = Inr \<lparr>sights = [sight_A, sight_C, sight_B, sight_B]\<rparr>"
    by (simp add: SightCollection_init_def)
  with inner fx gi init_A init_C init_B pair_AC pair_BB intersects_AB intersects_CB
  show ?thesis by blast
qed

end
